theory Spec2Isabelle
  imports Main "HOL-Library.Word"
begin

unbundle bit_operations_syntax

section \<open>The Python binding of the GmSSL library (gmssl.py)\<close>

text \<open>
  The module is a ctypes binding: every class is a \<^verbatim>\<open>Structure\<close> whose
  \<^verbatim>\<open>_fields_\<close> give the layout of the native context, and every method validates
  its arguments, calls one function of the loaded library \<^verbatim>\<open>gmssl\<close> with
  \<^verbatim>\<open>byref(self)\<close> and turns the integer it returns into a result or an exception.

  The model keeps that shape.  A \<^verbatim>\<open>Structure\<close> is a record with the fields of
  \<^verbatim>\<open>_fields_\<close>; a Python attribute set by \<^verbatim>\<open>__init__\<close> is one more field of the
  object's record.  The loaded library is the record \<open>gmssl\<close> of its functions: a native
  function reads the context and its arguments and gives back its return code, the
  context as it left it and the bytes it stored in the output buffer.  An exception is the
  left summand of the result.  Every method also reports, in order, the native functions
  it called.
\<close>

subsection \<open>Bytes, buffers and exceptions\<close>

type_synonym byte = "8 word"
type_synonym bytes = "byte list"

text \<open>The two exception classes the module raises: Python's \<^verbatim>\<open>ValueError\<close> and the
  module's own \<^verbatim>\<open>InnerError\<close>, each with its message.\<close>

datatype error = ValueError string | InnerError string

text \<open>\<^verbatim>\<open>create_string_buffer(n)\<close>: \<open>n\<close> zero bytes.\<close>

definition create_string_buffer :: "nat \<Rightarrow> bytes" where
  "create_string_buffer n = replicate n 0"

text \<open>A native function stores \<open>out\<close> at the start of the buffer it was given; the
  buffer keeps its size.\<close>

definition store :: "bytes \<Rightarrow> bytes \<Rightarrow> bytes" where
  "store buf out = take (length buf) (out @ drop (length out) buf)"

text \<open>\<^verbatim>\<open>outbuf[:outlen.value]\<close> after the native call: a slice of a ctypes array stops
  at the end of the array.\<close>

definition returned :: "nat \<Rightarrow> bytes \<Rightarrow> nat \<Rightarrow> bytes" where
  "returned n out outlen = take outlen (store (create_string_buffer n) out)"

subsection \<open>Module constants\<close>

definition SM3_DIGEST_SIZE :: nat where "SM3_DIGEST_SIZE = 32"
definition SM3_STATE_WORDS :: nat where "SM3_STATE_WORDS = 8"
definition SM3_BLOCK_SIZE :: nat where "SM3_BLOCK_SIZE = 64"
definition SM3_HMAC_SIZE :: nat where "SM3_HMAC_SIZE = SM3_DIGEST_SIZE"
definition SM3_HMAC_MIN_KEY_SIZE :: nat where "SM3_HMAC_MIN_KEY_SIZE = 16"
definition SM3_HMAC_MAX_KEY_SIZE :: nat where "SM3_HMAC_MAX_KEY_SIZE = 64"
definition SM4_KEY_SIZE :: nat where "SM4_KEY_SIZE = 16"
definition SM4_BLOCK_SIZE :: nat where "SM4_BLOCK_SIZE = 16"
definition SM4_NUM_ROUNDS :: nat where "SM4_NUM_ROUNDS = 32"
definition SM4_CTR_IV_SIZE :: nat where "SM4_CTR_IV_SIZE = 16"
definition ZUC_KEY_SIZE :: nat where "ZUC_KEY_SIZE = 16"
definition ZUC_IV_SIZE :: nat where "ZUC_IV_SIZE = 16"
definition SM4_GCM_MIN_IV_SIZE :: nat where "SM4_GCM_MIN_IV_SIZE = 1"
definition SM4_GCM_MAX_IV_SIZE :: nat where "SM4_GCM_MAX_IV_SIZE = 64"
definition SM4_GCM_DEFAULT_IV_SIZE :: nat where "SM4_GCM_DEFAULT_IV_SIZE = 12"
definition SM4_GCM_DEFAULT_TAG_SIZE :: nat where "SM4_GCM_DEFAULT_TAG_SIZE = 16"
definition SM4_GCM_MAX_TAG_SIZE :: nat where "SM4_GCM_MAX_TAG_SIZE = 16"
definition SM2_MAX_SIGNATURE_SIZE :: nat where "SM2_MAX_SIGNATURE_SIZE = 72"
definition SM2_MIN_PLAINTEXT_SIZE :: nat where "SM2_MIN_PLAINTEXT_SIZE = 1"
definition SM2_MAX_PLAINTEXT_SIZE :: nat where "SM2_MAX_PLAINTEXT_SIZE = 255"
definition SM2_MIN_CIPHERTEXT_SIZE :: nat where "SM2_MIN_CIPHERTEXT_SIZE = 45"
definition SM2_MAX_CIPHERTEXT_SIZE :: nat where "SM2_MAX_CIPHERTEXT_SIZE = 366"

definition inner_error :: error where
  "inner_error = InnerError ''libgmssl inner error''"

subsection \<open>The structures\<close>

text \<open>Each record lists the \<^verbatim>\<open>_fields_\<close> of the class of the same name, in order.
  A \<^verbatim>\<open>c_size_t\<close> is a natural number: the binding never computes with one.\<close>

record Sm3 =
  sm3_dgst :: "32 word list"
  sm3_nblocks :: "64 word"
  sm3_block :: bytes
  sm3_num :: nat

record Sm3Hmac =
  hmac_sm3_ctx :: Sm3
  hmac_key :: bytes

record Sm4 =
  sm4_rk :: "32 word list"

record Sm4Cbc_fields =
  cbc_sm4_key :: Sm4
  cbc_iv :: bytes
  cbc_block :: bytes
  cbc_block_nbytes :: nat

record Sm4Ctr =
  ctr_sm4_key :: Sm4
  ctr_ctr :: bytes
  ctr_block :: bytes
  ctr_block_nbytes :: nat

record ZucState =
  zuc_LFSR :: "32 word list"
  zuc_R1 :: "32 word"
  zuc_R2 :: "32 word"

record Zuc =
  zuc_state :: ZucState
  zuc_block :: bytes
  zuc_block_nbytes :: nat

record gf128_t =
  gf_hi :: "64 word"
  gf_lo :: "64 word"

record Ghash =
  ghash_H :: gf128_t
  ghash_X :: gf128_t
  ghash_aadlen :: nat
  ghash_clen :: nat
  ghash_block :: bytes
  ghash_num :: nat

record Sm4Gcm_fields =
  gcm_sm4_ctr_ctx :: Sm4Ctr
  gcm_mac_ctx :: Ghash
  gcm_Y :: bytes
  gcm_taglen :: nat
  gcm_mac :: bytes
  gcm_maclen :: nat

record Sm2Point =
  point_x :: bytes
  point_y :: bytes

record Sm2Key =
  public_key :: Sm2Point
  private_key :: bytes

record Sm2Signature_fields =
  sig_sm3_ctx :: Sm3
  sig_key :: Sm2Key


record Sm4Gcm =
  gcm_fields :: Sm4Gcm_fields
  gcm_encrypt :: bool

record Sm2Signature =
  sig_fields :: Sm2Signature_fields
  sig_sign :: bool

text \<open>A new \<^verbatim>\<open>Structure\<close> is zero-filled before \<^verbatim>\<open>__init__\<close> runs.\<close>

definition Sm3_new :: Sm3 where
  "Sm3_new = \<lparr>sm3_dgst = replicate SM3_STATE_WORDS 0, sm3_nblocks = 0,
     sm3_block = replicate SM3_BLOCK_SIZE 0, sm3_num = 0\<rparr>"

definition Sm3Hmac_new :: Sm3Hmac where
  "Sm3Hmac_new = \<lparr>hmac_sm3_ctx = Sm3_new, hmac_key = replicate SM3_BLOCK_SIZE 0\<rparr>"

definition Sm4_new :: Sm4 where
  "Sm4_new = \<lparr>sm4_rk = replicate SM4_NUM_ROUNDS 0\<rparr>"


definition Sm4Ctr_new :: Sm4Ctr where
  "Sm4Ctr_new = \<lparr>ctr_sm4_key = Sm4_new, ctr_ctr = replicate SM4_BLOCK_SIZE 0,
     ctr_block = replicate SM4_BLOCK_SIZE 0, ctr_block_nbytes = 0\<rparr>"


definition Ghash_new :: Ghash where
  "Ghash_new = \<lparr>ghash_H = \<lparr>gf_hi = 0, gf_lo = 0\<rparr>, ghash_X = \<lparr>gf_hi = 0, gf_lo = 0\<rparr>, ghash_aadlen = 0, ghash_clen = 0,
     ghash_block = replicate 16 0, ghash_num = 0\<rparr>"

definition Sm4Gcm_new :: Sm4Gcm_fields where
  "Sm4Gcm_new = \<lparr>gcm_sm4_ctr_ctx = Sm4Ctr_new, gcm_mac_ctx = Ghash_new, gcm_Y = replicate 16 0,
     gcm_taglen = 0, gcm_mac = replicate 16 0, gcm_maclen = 0\<rparr>"

definition Sm2Key_new :: Sm2Key where
  "Sm2Key_new = \<lparr>public_key = \<lparr>point_x = replicate 32 0, point_y = replicate 32 0\<rparr>,
     private_key = replicate 32 0\<rparr>"

definition Sm2Signature_new :: Sm2Signature_fields where
  "Sm2Signature_new = \<lparr>sig_sm3_ctx = Sm3_new, sig_key = Sm2Key_new\<rparr>"

subsection \<open>The loaded library\<close>

text \<open>
  The functions of \<^verbatim>\<open>libgmssl\<close> that the module calls, with the arguments the module
  passes.  A function that fills an output buffer returns the bytes it stored and the
  value it left in \<^verbatim>\<open>outlen\<close>.  The functions declared \<^verbatim>\<open>void\<close> in the library
  (the SM3, HMAC and SM4 key-schedule ones) return no code.  A \<^verbatim>\<open>FILE*\<close> is a handle
  number, \<open>None\<close> for the null pointer.  The fields \<open>sm2_sign_update'\<close> and
  \<open>sm2_verify_update'\<close> are the library's \<^verbatim>\<open>sm2_sign_update\<close> and
  \<^verbatim>\<open>sm2_verify_update\<close>.
\<close>

type_synonym 'c coded = "int \<times> 'c"
type_synonym 'c filled = "int \<times> 'c \<times> bytes \<times> nat"
type_synonym FILE_p = "nat option"

record gmssl =
  sm3_init :: "Sm3 \<Rightarrow> Sm3"
  sm3_update :: "Sm3 \<Rightarrow> bytes \<Rightarrow> Sm3"
  sm3_finish :: "Sm3 \<Rightarrow> Sm3 \<times> bytes"
  sm3_hmac_init :: "Sm3Hmac \<Rightarrow> bytes \<Rightarrow> Sm3Hmac"
  sm3_hmac_update :: "Sm3Hmac \<Rightarrow> bytes \<Rightarrow> Sm3Hmac"
  sm3_hmac_finish :: "Sm3Hmac \<Rightarrow> Sm3Hmac \<times> bytes"
  sm4_set_encrypt_key :: "Sm4 \<Rightarrow> bytes \<Rightarrow> Sm4"
  sm4_set_decrypt_key :: "Sm4 \<Rightarrow> bytes \<Rightarrow> Sm4"
  sm4_encrypt :: "Sm4 \<Rightarrow> bytes \<Rightarrow> bytes"
  sm4_cbc_encrypt_init :: "Sm4Cbc_fields \<Rightarrow> bytes \<Rightarrow> bytes \<Rightarrow> Sm4Cbc_fields coded"
  sm4_cbc_decrypt_init :: "Sm4Cbc_fields \<Rightarrow> bytes \<Rightarrow> bytes \<Rightarrow> Sm4Cbc_fields coded"
  sm4_cbc_encrypt_update :: "Sm4Cbc_fields \<Rightarrow> bytes \<Rightarrow> Sm4Cbc_fields filled"
  sm4_cbc_decrypt_update :: "Sm4Cbc_fields \<Rightarrow> bytes \<Rightarrow> Sm4Cbc_fields filled"
  sm4_cbc_encrypt_finish :: "Sm4Cbc_fields \<Rightarrow> Sm4Cbc_fields filled"
  sm4_cbc_decrypt_finish :: "Sm4Cbc_fields \<Rightarrow> Sm4Cbc_fields filled"
  sm4_ctr_encrypt_init :: "Sm4Ctr \<Rightarrow> bytes \<Rightarrow> bytes \<Rightarrow> Sm4Ctr coded"
  sm4_ctr_encrypt_update :: "Sm4Ctr \<Rightarrow> bytes \<Rightarrow> Sm4Ctr filled"
  sm4_ctr_encrypt_finish :: "Sm4Ctr \<Rightarrow> Sm4Ctr filled"
  zuc_encrypt_init :: "Zuc \<Rightarrow> bytes \<Rightarrow> bytes \<Rightarrow> Zuc coded"
  zuc_encrypt_update :: "Zuc \<Rightarrow> bytes \<Rightarrow> Zuc filled"
  zuc_encrypt_finish :: "Zuc \<Rightarrow> Zuc filled"
  sm4_gcm_encrypt_init ::
    "Sm4Gcm_fields \<Rightarrow> bytes \<Rightarrow> bytes \<Rightarrow> bytes \<Rightarrow> nat \<Rightarrow> Sm4Gcm_fields coded"
  sm4_gcm_decrypt_init ::
    "Sm4Gcm_fields \<Rightarrow> bytes \<Rightarrow> bytes \<Rightarrow> bytes \<Rightarrow> nat \<Rightarrow> Sm4Gcm_fields coded"
  sm4_gcm_encrypt_update :: "Sm4Gcm_fields \<Rightarrow> bytes \<Rightarrow> Sm4Gcm_fields filled"
  sm4_gcm_decrypt_update :: "Sm4Gcm_fields \<Rightarrow> bytes \<Rightarrow> Sm4Gcm_fields filled"
  sm4_gcm_encrypt_finish :: "Sm4Gcm_fields \<Rightarrow> Sm4Gcm_fields filled"
  sm4_gcm_decrypt_finish :: "Sm4Gcm_fields \<Rightarrow> Sm4Gcm_fields filled"
  sm2_key_generate :: "Sm2Key \<Rightarrow> Sm2Key coded"
  sm2_compute_z :: "Sm2Key \<Rightarrow> bytes \<Rightarrow> bytes"
  sm2_private_key_info_encrypt_to_pem :: "Sm2Key \<Rightarrow> string \<Rightarrow> FILE_p \<Rightarrow> Sm2Key coded"
  sm2_private_key_info_decrypt_from_pem :: "Sm2Key \<Rightarrow> string \<Rightarrow> FILE_p \<Rightarrow> Sm2Key coded"
  sm2_public_key_info_to_pem :: "Sm2Key \<Rightarrow> FILE_p \<Rightarrow> Sm2Key coded"
  sm2_public_key_info_from_pem :: "Sm2Key \<Rightarrow> FILE_p \<Rightarrow> Sm2Key coded"
  sm2_sign :: "Sm2Key \<Rightarrow> bytes \<Rightarrow> Sm2Key filled"
  sm2_verify :: "Sm2Key \<Rightarrow> bytes \<Rightarrow> bytes \<Rightarrow> Sm2Key coded"
  sm2_encrypt :: "Sm2Key \<Rightarrow> bytes \<Rightarrow> Sm2Key filled"
  sm2_decrypt :: "Sm2Key \<Rightarrow> bytes \<Rightarrow> Sm2Key filled"
  sm2_sign_init :: "Sm2Signature_fields \<Rightarrow> Sm2Key \<Rightarrow> bytes \<Rightarrow> Sm2Signature_fields coded"
  sm2_verify_init :: "Sm2Signature_fields \<Rightarrow> Sm2Key \<Rightarrow> bytes \<Rightarrow> Sm2Signature_fields coded"
  sm2_sign_update' :: "Sm2Signature_fields \<Rightarrow> bytes \<Rightarrow> Sm2Signature_fields coded"
  sm2_verify_update' :: "Sm2Signature_fields \<Rightarrow> bytes \<Rightarrow> Sm2Signature_fields coded"
  sm2_sign_finish :: "Sm2Signature_fields \<Rightarrow> Sm2Signature_fields filled"
  sm2_verify_finish :: "Sm2Signature_fields \<Rightarrow> bytes \<Rightarrow> Sm2Signature_fields coded"


text \<open>The C library, used for the PEM files only: \<^verbatim>\<open>fopen\<close> sees the path, the mode
  and the streams the process has open, and gives a new stream or the null pointer.\<close>

record libc =
  fopen :: "string \<Rightarrow> string \<Rightarrow> nat list \<Rightarrow> FILE_p"

text \<open>The streams of the process that are open, by handle.  \<^verbatim>\<open>libc.fopen\<close> adds the
  stream it returns; \<^verbatim>\<open>libc.fclose\<close> removes the one it is given.  (Closing the null
  pointer is undefined in C; the model leaves the streams as they are.)\<close>

definition libc_fopen :: "libc \<Rightarrow> string \<Rightarrow> string \<Rightarrow> nat list \<Rightarrow> FILE_p \<times> nat list" where
  "libc_fopen c path mode streams =
     (case fopen c path mode streams of
        None \<Rightarrow> (None, streams)
      | Some fp \<Rightarrow> (Some fp, fp # streams))"

definition libc_fclose :: "FILE_p \<Rightarrow> nat list \<Rightarrow> nat list" where
  "libc_fclose fp streams = (case fp of None \<Rightarrow> streams | Some h \<Rightarrow> remove1 h streams)"

subsection \<open>What a method gives back\<close>

text \<open>A constructor gives the new object or the exception \<^verbatim>\<open>__init__\<close> raised; a
  method gives its return value or its exception, and the object as the call left it.
  Both list the native functions they called.\<close>

type_synonym 's constructed = "(error + 's) \<times> string list"
type_synonym ('r, 's) called = "(error + 'r) \<times> 's \<times> string list"

text \<open>The pattern of every streaming method: raise \<^verbatim>\<open>InnerError\<close> unless the native
  function returned 1, else return \<^verbatim>\<open>outbuf[:outlen.value]\<close> of a buffer of \<open>n\<close>
  bytes.\<close>

definition sliced :: "nat \<Rightarrow> int \<Rightarrow> bytes \<Rightarrow> nat \<Rightarrow> error + bytes" where
  "sliced n ret out outlen = (if ret \<noteq> 1 then Inl inner_error else Inr (returned n out outlen))"

subsection \<open>class Sm3\<close>





subsection \<open>class Sm3Hmac\<close>

definition Sm3Hmac_init :: "gmssl \<Rightarrow> bytes \<Rightarrow> Sm3Hmac constructed" where
  "Sm3Hmac_init lib key =
     (if length key < SM3_HMAC_MIN_KEY_SIZE \<or> length key > SM3_HMAC_MAX_KEY_SIZE
      then (Inl (ValueError ''Invalid SM3 HMAC key length''), [])
      else (Inr (sm3_hmac_init lib Sm3Hmac_new key), [''sm3_hmac_init'']))"

definition Sm3Hmac_reset :: "gmssl \<Rightarrow> Sm3Hmac \<Rightarrow> bytes \<Rightarrow> (unit, Sm3Hmac) called" where
  "Sm3Hmac_reset lib self key =
     (if length key < SM3_HMAC_MIN_KEY_SIZE \<or> length key > SM3_HMAC_MAX_KEY_SIZE
      then (Inl (ValueError ''Invalid SM3 HMAC key length''), self, [])
      else (Inr (), sm3_hmac_init lib self key, [''sm3_hmac_init'']))"

definition Sm3Hmac_update :: "gmssl \<Rightarrow> Sm3Hmac \<Rightarrow> bytes \<Rightarrow> (unit, Sm3Hmac) called" where
  "Sm3Hmac_update lib self data =
     (Inr (), sm3_hmac_update lib self data, [''sm3_hmac_update''])"

definition Sm3Hmac_generateMac :: "gmssl \<Rightarrow> Sm3Hmac \<Rightarrow> (bytes, Sm3Hmac) called" where
  "Sm3Hmac_generateMac lib self =
     (let (self', out) = sm3_hmac_finish lib self
      in (Inr (store (create_string_buffer SM3_HMAC_SIZE) out), self', [''sm3_hmac_finish'']))"

subsection \<open>class Sm4\<close>

definition Sm4_init :: "gmssl \<Rightarrow> bytes \<Rightarrow> bool \<Rightarrow> Sm4 constructed" where
  "Sm4_init lib key encrypt =
     (if length key \<noteq> SM4_KEY_SIZE then (Inl (ValueError ''Invalid key length''), [])
      else if encrypt then (Inr (sm4_set_encrypt_key lib Sm4_new key), [''sm4_set_encrypt_key''])
      else (Inr (sm4_set_decrypt_key lib Sm4_new key), [''sm4_set_decrypt_key'']))"

definition Sm4_encrypt :: "gmssl \<Rightarrow> Sm4 \<Rightarrow> bytes \<Rightarrow> (bytes, Sm4) called" where
  "Sm4_encrypt lib self blk =
     (if length blk \<noteq> SM4_BLOCK_SIZE then (Inl (ValueError ''Invalid block size''), self, [])
      else (Inr (store (create_string_buffer SM4_BLOCK_SIZE) (sm4_encrypt lib self blk)),
            self, [''sm4_encrypt'']))"

subsection \<open>class Sm4Cbc\<close>




subsection \<open>class Sm4Ctr\<close>

definition Sm4Ctr_init :: "gmssl \<Rightarrow> bytes \<Rightarrow> bytes \<Rightarrow> Sm4Ctr constructed" where
  "Sm4Ctr_init lib key iv =
     (if length key \<noteq> SM4_KEY_SIZE then (Inl (ValueError ''Invalid key length''), [])
      else if length iv \<noteq> SM4_BLOCK_SIZE then (Inl (ValueError ''Invalid IV size''), [])
      else
        (let (ret, c) = sm4_ctr_encrypt_init lib Sm4Ctr_new key iv
         in (if ret \<noteq> 1 then Inl inner_error else Inr c, [''sm4_ctr_encrypt_init''])))"



subsection \<open>class Zuc\<close>




subsection \<open>class Sm4Gcm\<close>

text \<open>\<^verbatim>\<open>taglen\<close> is a Python integer; it reaches the library as a \<^verbatim>\<open>c_size_t\<close> only
  after the range check.\<close>

definition Sm4Gcm_init ::
  "gmssl \<Rightarrow> bytes \<Rightarrow> bytes \<Rightarrow> bytes \<Rightarrow> int \<Rightarrow> bool \<Rightarrow> Sm4Gcm constructed" where
  "Sm4Gcm_init lib key iv aad taglen encrypt =
     (if length key \<noteq> SM4_KEY_SIZE then (Inl (ValueError ''Invalid key length''), [])
      else if length iv < SM4_GCM_MIN_IV_SIZE \<or> length iv > SM4_GCM_MAX_IV_SIZE
        then (Inl (ValueError ''Invalid IV size''), [])
      else if taglen < 1 \<or> taglen > int SM4_GCM_MAX_TAG_SIZE
        then (Inl (ValueError ''Invalid Tag length''), [])
      else
        (let (ok, c) =
               (if encrypt then sm4_gcm_encrypt_init lib Sm4Gcm_new key iv aad (nat taglen)
                else sm4_gcm_decrypt_init lib Sm4Gcm_new key iv aad (nat taglen))
         in (if ok \<noteq> 1 then Inl inner_error
             else Inr \<lparr>gcm_fields = c, gcm_encrypt = encrypt\<rparr>,
             [if encrypt then ''sm4_gcm_encrypt_init'' else ''sm4_gcm_decrypt_init''])))"

definition Sm4Gcm_update :: "gmssl \<Rightarrow> Sm4Gcm \<Rightarrow> bytes \<Rightarrow> (bytes, Sm4Gcm) called" where
  "Sm4Gcm_update lib self data =
     (if gcm_encrypt self then
        (let (ret, c, out, outlen) = sm4_gcm_encrypt_update lib (gcm_fields self) data
         in (sliced (length data + SM4_BLOCK_SIZE) ret out outlen,
             self\<lparr>gcm_fields := c\<rparr>, [''sm4_gcm_encrypt_update'']))
      else
        (let (ret, c, out, outlen) = sm4_gcm_decrypt_update lib (gcm_fields self) data
         in (sliced (length data + SM4_BLOCK_SIZE) ret out outlen,
             self\<lparr>gcm_fields := c\<rparr>, [''sm4_gcm_decrypt_update''])))"

definition Sm4Gcm_finish :: "gmssl \<Rightarrow> Sm4Gcm \<Rightarrow> (bytes, Sm4Gcm) called" where
  "Sm4Gcm_finish lib self =
     (if gcm_encrypt self then
        (let (ret, c, out, outlen) = sm4_gcm_encrypt_finish lib (gcm_fields self)
         in (sliced (SM4_BLOCK_SIZE + SM4_GCM_MAX_TAG_SIZE) ret out outlen,
             self\<lparr>gcm_fields := c\<rparr>, [''sm4_gcm_encrypt_finish'']))
      else
        (let (ret, c, out, outlen) = sm4_gcm_decrypt_finish lib (gcm_fields self)
         in (sliced (SM4_BLOCK_SIZE + SM4_GCM_MAX_TAG_SIZE) ret out outlen,
             self\<lparr>gcm_fields := c\<rparr>, [''sm4_gcm_decrypt_finish''])))"

subsection \<open>class Sm2Key\<close>

definition Sm2Key_generate_key :: "gmssl \<Rightarrow> Sm2Key \<Rightarrow> (unit, Sm2Key) called" where
  "Sm2Key_generate_key lib self =
     (let (ret, k) = sm2_key_generate lib self
      in (if ret \<noteq> 1 then Inl inner_error else Inr (), k, [''sm2_key_generate'']))"

definition Sm2Key_compute_z :: "gmssl \<Rightarrow> Sm2Key \<Rightarrow> bytes \<Rightarrow> (bytes, Sm2Key) called" where
  "Sm2Key_compute_z lib self signer_id =
     (Inr (store (create_string_buffer SM3_DIGEST_SIZE) (sm2_compute_z lib self signer_id)),
      self, [''sm2_compute_z''])"

text \<open>The four PEM methods also take and give back the open streams of the process.  Each
  opens the file, hands the stream to the library, raises if the library did not return 1,
  and otherwise closes the stream and returns \<^verbatim>\<open>True\<close>.\<close>

type_synonym pem_called = "(error + bool) \<times> Sm2Key \<times> nat list \<times> string list"

definition Sm2Key_export_encrypted_private_key_info_pem ::
  "gmssl \<Rightarrow> libc \<Rightarrow> Sm2Key \<Rightarrow> string \<Rightarrow> string \<Rightarrow> nat list \<Rightarrow> pem_called" where
  "Sm2Key_export_encrypted_private_key_info_pem lib c self path passwd streams =
     (let (fp, streams1) = libc_fopen c path ''wb'' streams;
          (ret, k) = sm2_private_key_info_encrypt_to_pem lib self passwd fp
      in if ret \<noteq> 1
         then (Inl inner_error, k, streams1, [''fopen'', ''sm2_private_key_info_encrypt_to_pem''])
         else (Inr True, k, libc_fclose fp streams1,
               [''fopen'', ''sm2_private_key_info_encrypt_to_pem'', ''fclose'']))"

definition Sm2Key_import_encrypted_private_key_info_pem ::
  "gmssl \<Rightarrow> libc \<Rightarrow> Sm2Key \<Rightarrow> string \<Rightarrow> string \<Rightarrow> nat list \<Rightarrow> pem_called" where
  "Sm2Key_import_encrypted_private_key_info_pem lib c self path passwd streams =
     (let (fp, streams1) = libc_fopen c path ''rb'' streams;
          (ret, k) = sm2_private_key_info_decrypt_from_pem lib self passwd fp
      in if ret \<noteq> 1
         then (Inl inner_error, k, streams1, [''fopen'', ''sm2_private_key_info_decrypt_from_pem''])
         else (Inr True, k, libc_fclose fp streams1,
               [''fopen'', ''sm2_private_key_info_decrypt_from_pem'', ''fclose'']))"

definition Sm2Key_export_public_key_info_pem ::
  "gmssl \<Rightarrow> libc \<Rightarrow> Sm2Key \<Rightarrow> string \<Rightarrow> nat list \<Rightarrow> pem_called" where
  "Sm2Key_export_public_key_info_pem lib c self path streams =
     (let (fp, streams1) = libc_fopen c path ''wb'' streams;
          (ret, k) = sm2_public_key_info_to_pem lib self fp
      in if ret \<noteq> 1
         then (Inl inner_error, k, streams1, [''fopen'', ''sm2_public_key_info_to_pem''])
         else (Inr True, k, libc_fclose fp streams1,
               [''fopen'', ''sm2_public_key_info_to_pem'', ''fclose'']))"

definition Sm2Key_import_public_key_info_pem ::
  "gmssl \<Rightarrow> libc \<Rightarrow> Sm2Key \<Rightarrow> string \<Rightarrow> nat list \<Rightarrow> pem_called" where
  "Sm2Key_import_public_key_info_pem lib c self path streams =
     (let (fp, streams1) = libc_fopen c path ''rb'' streams;
          (ret, k) = sm2_public_key_info_from_pem lib self fp
      in if ret \<noteq> 1
         then (Inl inner_error, k, streams1, [''fopen'', ''sm2_public_key_info_from_pem''])
         else (Inr True, k, libc_fclose fp streams1,
               [''fopen'', ''sm2_public_key_info_from_pem'', ''fclose'']))"

definition Sm2Key_sign :: "gmssl \<Rightarrow> Sm2Key \<Rightarrow> bytes \<Rightarrow> (bytes, Sm2Key) called" where
  "Sm2Key_sign lib self dgst =
     (if length dgst \<noteq> SM3_DIGEST_SIZE
      then (Inl (ValueError ''Invalid SM3 digest size''), self, [])
      else
        (let (ret, k, out, siglen) = sm2_sign lib self dgst
         in (sliced SM2_MAX_SIGNATURE_SIZE ret out siglen, k, [''sm2_sign''])))"

definition Sm2Key_verify :: "gmssl \<Rightarrow> Sm2Key \<Rightarrow> bytes \<Rightarrow> bytes \<Rightarrow> (bool, Sm2Key) called" where
  "Sm2Key_verify lib self dgst sig =
     (if length dgst \<noteq> SM3_DIGEST_SIZE
      then (Inl (ValueError ''Invalid SM3 digest size''), self, [])
      else
        (let (ret, k) = sm2_verify lib self dgst sig
         in (if ret < 0 then Inl inner_error else if ret = 0 then Inr False else Inr True,
             k, [''sm2_verify''])))"

definition Sm2Key_encrypt :: "gmssl \<Rightarrow> Sm2Key \<Rightarrow> bytes \<Rightarrow> (bytes, Sm2Key) called" where
  "Sm2Key_encrypt lib self data =
     (let (ret, k, out, outlen) = sm2_encrypt lib self data
      in (sliced SM2_MAX_CIPHERTEXT_SIZE ret out outlen, k, [''sm2_encrypt'']))"

definition Sm2Key_decrypt :: "gmssl \<Rightarrow> Sm2Key \<Rightarrow> bytes \<Rightarrow> (bytes, Sm2Key) called" where
  "Sm2Key_decrypt lib self ciphertext =
     (let (ret, k, out, outlen) = sm2_decrypt lib self ciphertext
      in (sliced SM2_MAX_PLAINTEXT_SIZE ret out outlen, k, [''sm2_decrypt'']))"

subsection \<open>class Sm2Signature\<close>

definition Sm2Signature_init ::
  "gmssl \<Rightarrow> Sm2Key \<Rightarrow> bytes \<Rightarrow> bool \<Rightarrow> Sm2Signature constructed" where
  "Sm2Signature_init lib sm2_key signer_id sign =
     (if sign then
        (let (ret, c) = sm2_sign_init lib Sm2Signature_new sm2_key signer_id
         in (if ret \<noteq> 1 then Inl inner_error
             else Inr \<lparr>sig_fields = c, sig_sign = True\<rparr>, [''sm2_sign_init'']))
      else
        (let (ret, c) = sm2_verify_init lib Sm2Signature_new sm2_key signer_id
         in (if ret \<noteq> 1 then Inl inner_error
             else Inr \<lparr>sig_fields = c, sig_sign = False\<rparr>, [''sm2_verify_init''])))"

definition Sm2Signature_update ::
  "gmssl \<Rightarrow> Sm2Signature \<Rightarrow> bytes \<Rightarrow> (unit, Sm2Signature) called" where
  "Sm2Signature_update lib self data =
     (if sig_sign self then
        (let (ret, c) = sm2_sign_update' lib (sig_fields self) data
         in (if ret \<noteq> 1 then Inl inner_error else Inr (),
             self\<lparr>sig_fields := c\<rparr>, [''sm2_sign_update'']))
      else
        (let (ret, c) = sm2_verify_update' lib (sig_fields self) data
         in (if ret \<noteq> 1 then Inl inner_error else Inr (),
             self\<lparr>sig_fields := c\<rparr>, [''sm2_verify_update''])))"

definition Sm2Signature_sign :: "gmssl \<Rightarrow> Sm2Signature \<Rightarrow> (bytes, Sm2Signature) called" where
  "Sm2Signature_sign lib self =
     (let (ret, c, out, siglen) = sm2_sign_finish lib (sig_fields self)
      in (sliced SM2_MAX_SIGNATURE_SIZE ret out siglen,
          self\<lparr>sig_fields := c\<rparr>, [''sm2_sign_finish'']))"

definition Sm2Signature_verify ::
  "gmssl \<Rightarrow> Sm2Signature \<Rightarrow> bytes \<Rightarrow> (bool, Sm2Signature) called" where
  "Sm2Signature_verify lib self sig =
     (let (ret, c) = sm2_verify_finish lib (sig_fields self) sig
      in (if ret < 0 then Inl inner_error else if ret = 0 then Inr False else Inr True,
          self\<lparr>sig_fields := c\<rparr>, [''sm2_verify_finish'']))"

subsection \<open>A library that refuses everything\<close>

text \<open>A concrete library for evaluating the methods: every function that returns a code
  returns \<open>-1\<close> and stores nothing, and the functions without a code leave the context
  as it is.  Single functions are replaced by record update where a test needs another
  answer.\<close>

definition refusing :: gmssl where
  "refusing = \<lparr>
     sm3_init = (\<lambda>c. c),
     sm3_update = (\<lambda>c d. c),
     sm3_finish = (\<lambda>c. (c, [])),
     sm3_hmac_init = (\<lambda>c k. c),
     sm3_hmac_update = (\<lambda>c d. c),
     sm3_hmac_finish = (\<lambda>c. (c, [])),
     sm4_set_encrypt_key = (\<lambda>c k. c),
     sm4_set_decrypt_key = (\<lambda>c k. c),
     sm4_encrypt = (\<lambda>c b. []),
     sm4_cbc_encrypt_init = (\<lambda>c k iv. (- 1, c)),
     sm4_cbc_decrypt_init = (\<lambda>c k iv. (- 1, c)),
     sm4_cbc_encrypt_update = (\<lambda>c d. (- 1, c, [], 0)),
     sm4_cbc_decrypt_update = (\<lambda>c d. (- 1, c, [], 0)),
     sm4_cbc_encrypt_finish = (\<lambda>c. (- 1, c, [], 0)),
     sm4_cbc_decrypt_finish = (\<lambda>c. (- 1, c, [], 0)),
     sm4_ctr_encrypt_init = (\<lambda>c k iv. (- 1, c)),
     sm4_ctr_encrypt_update = (\<lambda>c d. (- 1, c, [], 0)),
     sm4_ctr_encrypt_finish = (\<lambda>c. (- 1, c, [], 0)),
     zuc_encrypt_init = (\<lambda>c k iv. (- 1, c)),
     zuc_encrypt_update = (\<lambda>c d. (- 1, c, [], 0)),
     zuc_encrypt_finish = (\<lambda>c. (- 1, c, [], 0)),
     sm4_gcm_encrypt_init = (\<lambda>c k iv aad t. (- 1, c)),
     sm4_gcm_decrypt_init = (\<lambda>c k iv aad t. (- 1, c)),
     sm4_gcm_encrypt_update = (\<lambda>c d. (- 1, c, [], 0)),
     sm4_gcm_decrypt_update = (\<lambda>c d. (- 1, c, [], 0)),
     sm4_gcm_encrypt_finish = (\<lambda>c. (- 1, c, [], 0)),
     sm4_gcm_decrypt_finish = (\<lambda>c. (- 1, c, [], 0)),
     sm2_key_generate = (\<lambda>k. (- 1, k)),
     sm2_compute_z = (\<lambda>k i. []),
     sm2_private_key_info_encrypt_to_pem = (\<lambda>k pw fp. (- 1, k)),
     sm2_private_key_info_decrypt_from_pem = (\<lambda>k pw fp. (- 1, k)),
     sm2_public_key_info_to_pem = (\<lambda>k fp. (- 1, k)),
     sm2_public_key_info_from_pem = (\<lambda>k fp. (- 1, k)),
     sm2_sign = (\<lambda>k d. (- 1, k, [], 0)),
     sm2_verify = (\<lambda>k d s. (- 1, k)),
     sm2_encrypt = (\<lambda>k d. (- 1, k, [], 0)),
     sm2_decrypt = (\<lambda>k d. (- 1, k, [], 0)),
     sm2_sign_init = (\<lambda>c k i. (- 1, c)),
     sm2_verify_init = (\<lambda>c k i. (- 1, c)),
     sm2_sign_update' = (\<lambda>c d. (- 1, c)),
     sm2_verify_update' = (\<lambda>c d. (- 1, c)),
     sm2_sign_finish = (\<lambda>c. (- 1, c, [], 0)),
     sm2_verify_finish = (\<lambda>c s. (- 1, c))\<rparr>"

text \<open>A C library whose \<^verbatim>\<open>fopen\<close> always succeeds, with a handle no open stream has.\<close>

definition always_opens :: libc where
  "always_opens = \<lparr>fopen = (\<lambda>path mode streams. Some (Suc (fold max streams 0)))\<rparr>"

section \<open>The library, modelled from the specification\<close>

text \<open>
  The module only declares the layouts of the contexts of \<^verbatim>\<open>libgmssl\<close> and calls its
  functions; the functions themselves are not part of the source.  What the streaming
  methods return for a given input is decided there.  This section models the hash, the
  block cipher, the three SM4 modes, the ZUC stream and GHASH from the specification
  (sections 3, 4.1 to 4.6 and 6), over the structures declared in the module.  Where the
  specification names a construction of a standard without spelling it out (``the
  standard SM3 initial-vector constants'', ``the SM4 key-expansion schedule'', ``the
  standard reduction polynomial''), the constants are those of the standard the
  specification refers to.  The S-box of SM4 and the key loading and word generator of ZUC
  are parameters of the model.
\<close>

subsection \<open>Buffered processing of a byte stream\<close>

text \<open>Modelled from the spec: the partial-block discipline of every streaming state, missing
  with the library (section 3: a pending buffer ``holding bytes not yet forming a full
  block''; section 4.3: ``buffers any trailing partial block, returns only
  fully-produced output bytes'').  \<open>absorb n keep f s buf\<close> runs the block function \<open>f\<close>
  over \<open>buf\<close> in blocks of \<open>n\<close> bytes as long as more than \<open>keep\<close> bytes would remain, and
  gives the final state, the output of the blocks and the bytes left over.\<close>

function absorb ::
  "nat \<Rightarrow> nat \<Rightarrow> ('s \<Rightarrow> bytes \<Rightarrow> 's \<times> bytes) \<Rightarrow> 's \<Rightarrow> bytes \<Rightarrow> 's \<times> bytes \<times> bytes" where
  "absorb n keep f s buf =
     (if n = 0 \<or> length buf < n + keep then (s, [], buf)
      else (let r = f s (take n buf);
                t = absorb n keep f (fst r) (drop n buf)
            in (fst t, snd r @ fst (snd t), snd (snd t))))"
  by pat_completeness auto
termination
  by (relation "measure (\<lambda>(n, keep, f, s, buf). length buf)") auto

declare absorb.simps [simp del]

text \<open>Modelled from the spec: the bytes pending in a block buffer, missing with the library
  (section 3: ``a byte count within the pending buffer'').\<close>

definition pending :: "nat \<Rightarrow> bytes \<Rightarrow> bytes" where
  "pending nbytes blk = take nbytes blk"

subsection \<open>Words and bytes\<close>

text \<open>Modelled from the spec: rotation of a 32-bit word to the left, missing with the
  library; used by the round functions of SM3 and SM4 (sections 4.1 and 4.2).\<close>

definition ROL32 :: "32 word \<Rightarrow> nat \<Rightarrow> 32 word" where
  "ROL32 a n = push_bit n a OR drop_bit (32 - n) a"

text \<open>Modelled from the spec: a 32-bit word read from four bytes in big-endian order, missing
  with the library (section 6: ``big-endian word order'').\<close>

definition GETU32 :: "bytes \<Rightarrow> 32 word" where
  "GETU32 bs = push_bit 24 (ucast (bs ! 0)) OR push_bit 16 (ucast (bs ! 1))
      OR push_bit 8 (ucast (bs ! 2)) OR ucast (bs ! 3)"

text \<open>Modelled from the spec: the four bytes of a 32-bit word in big-endian order, missing
  with the library (section 6).\<close>

definition PUTU32 :: "32 word \<Rightarrow> bytes" where
  "PUTU32 w = [ucast (drop_bit 24 w), ucast (drop_bit 16 w), ucast (drop_bit 8 w), ucast w]"

text \<open>Modelled from the spec: the eight bytes of a 64-bit word in big-endian order, missing
  with the library; used for the bit-length suffix of SM3 and the length block of GCM
  (sections 3 and 4.5).\<close>

definition PUTU64 :: "64 word \<Rightarrow> bytes" where
  "PUTU64 w = PUTU32 (ucast (drop_bit 32 w)) @ PUTU32 (ucast w)"

text \<open>Modelled from the spec: a 64-bit word read from eight bytes in big-endian order, missing
  with the library; used by GHASH (section 4.5).\<close>

definition GETU64 :: "bytes \<Rightarrow> 64 word" where
  "GETU64 bs = push_bit 32 (ucast (GETU32 bs)) OR ucast (GETU32 (drop 4 bs))"

text \<open>Modelled from the spec: bytewise XOR of two byte strings, as long as the shorter one,
  missing with the library; the ``XORs'' of sections 4.3 to 4.6.\<close>

definition xor_bytes :: "bytes \<Rightarrow> bytes \<Rightarrow> bytes" where
  "xor_bytes a b = map2 (XOR) a b"

subsection \<open>SM3\<close>

text \<open>Modelled from the spec: the initial value of the eight accumulator words of
  \<^verbatim>\<open>sm3_init\<close>, missing with the library (section 4.1: ``the standard SM3
  initial-vector constants'').\<close>

definition sm3_IV :: "32 word list" where
  "sm3_IV = [0x7380166f, 0x4914b2b9, 0x172442d7, 0xda8a0600,
             0xa96f30bc, 0x163138aa, 0xe38dee4d, 0xb0fb0e4e]"

text \<open>Modelled from the spec: the round-dependent constants \<open>Tj\<close> of the SM3 compression,
  missing with the library (section 4.1).\<close>

definition sm3_T :: "nat \<Rightarrow> 32 word" where
  "sm3_T j = (if j < 16 then 0x79cc4519 else 0x7a879d8a)"

text \<open>Modelled from the spec: the boolean function \<open>FF\<close> of the SM3 rounds, missing with the
  library (section 4.1).\<close>

definition sm3_FF :: "nat \<Rightarrow> 32 word \<Rightarrow> 32 word \<Rightarrow> 32 word \<Rightarrow> 32 word" where
  "sm3_FF j a b c = (if j < 16 then a XOR b XOR c else (a AND b) OR (a AND c) OR (b AND c))"

text \<open>Modelled from the spec: the boolean function \<open>GG\<close> of the SM3 rounds, missing with the
  library (section 4.1).\<close>

definition sm3_GG :: "nat \<Rightarrow> 32 word \<Rightarrow> 32 word \<Rightarrow> 32 word \<Rightarrow> 32 word" where
  "sm3_GG j e f g = (if j < 16 then e XOR f XOR g else (e AND f) OR (NOT e AND g))"

text \<open>Modelled from the spec: the permutation \<open>P0\<close> of the SM3 compression, missing with the
  library (section 4.1, the SM3 compression function).\<close>

definition sm3_P0 :: "32 word \<Rightarrow> 32 word" where
  "sm3_P0 a = a XOR ROL32 a 9 XOR ROL32 a 17"

text \<open>Modelled from the spec: the permutation \<open>P1\<close> of the SM3 message expansion, missing
  with the library (section 4.1).\<close>

definition sm3_P1 :: "32 word \<Rightarrow> 32 word" where
  "sm3_P1 a = a XOR ROL32 a 15 XOR ROL32 a 23"

text \<open>Modelled from the spec: the SM3 message expansion, missing with the library
  (section 4.1: ``message expansion over 68 32-bit words'').  \<open>sm3_expand n W\<close> appends
  \<open>n\<close> words to \<open>W\<close>; the 16 words of a block are extended by 52.\<close>

fun sm3_expand :: "nat \<Rightarrow> 32 word list \<Rightarrow> 32 word list" where
  "sm3_expand 0 W = W"
| "sm3_expand (Suc n) W =
     (let j = length W
      in sm3_expand n
           (W @ [sm3_P1 (W ! (j - 16) XOR W ! (j - 9) XOR ROL32 (W ! (j - 3)) 15)
                 XOR ROL32 (W ! (j - 13)) 7 XOR W ! (j - 6)]))"

text \<open>Modelled from the spec: one of the 64 rounds of the SM3 compression, missing with the
  library (section 4.1: ``64 rounds using boolean functions FF/GG with round-dependent
  constants Tj'').\<close>

definition sm3_round :: "32 word list \<Rightarrow> nat \<Rightarrow> 32 word list \<Rightarrow> 32 word list" where
  "sm3_round W j V =
     (case V of
        [A, B, C, D, E, F, G, H] \<Rightarrow>
          (let SS1 = ROL32 (ROL32 A 12 + E + ROL32 (sm3_T j) (j mod 32)) 7;
               SS2 = SS1 XOR ROL32 A 12;
               TT1 = sm3_FF j A B C + D + SS2 + (W ! j XOR W ! (j + 4));
               TT2 = sm3_GG j E F G + H + SS1 + W ! j
           in [TT1, A, ROL32 B 9, C, sm3_P0 TT2, E, ROL32 F 19, G])
      | _ \<Rightarrow> V)"

text \<open>Modelled from the spec: the SM3 compression function on one 64-byte block, missing
  with the library (section 2: ``Merkle--Damgard compression over 512-bit blocks'').\<close>

definition sm3_compress :: "32 word list \<Rightarrow> bytes \<Rightarrow> 32 word list" where
  "sm3_compress V blk =
     (let W = sm3_expand 52 (map (\<lambda>i. GETU32 (drop (4 * i) blk)) [0..<16])
      in map2 (XOR) (fold (sm3_round W) [0..<64] V) V)"

text \<open>Modelled from the spec: the block function of the SM3 stream, missing with the
  library: compress the block and count it (section 3: ``a 64-bit processed-block
  counter'').\<close>

definition sm3_absorb_block ::
  "32 word list \<times> 64 word \<Rightarrow> bytes \<Rightarrow> (32 word list \<times> 64 word) \<times> bytes" where
  "sm3_absorb_block s blk = ((sm3_compress (fst s) blk, snd s + 1), [])"

text \<open>Modelled from the spec: the library function \<^verbatim>\<open>sm3_init\<close>, missing from the source
  (section 4.1: ``\<open>init()\<close> produces a fresh state with the standard SM3 initial-vector
  constants'').\<close>

definition spec_sm3_init :: "Sm3 \<Rightarrow> Sm3" where
  "spec_sm3_init c = \<lparr>sm3_dgst = sm3_IV, sm3_nblocks = 0,
     sm3_block = replicate SM3_BLOCK_SIZE 0, sm3_num = 0\<rparr>"

text \<open>Modelled from the spec: the library function \<^verbatim>\<open>sm3_update\<close>, missing from the source
  (section 4.1: ``appends bytes, compressing any complete 64-byte blocks \<dots> and buffers
  the remainder'').\<close>

definition spec_sm3_update :: "Sm3 \<Rightarrow> bytes \<Rightarrow> Sm3" where
  "spec_sm3_update c data =
     (let (s, out, rest) = absorb SM3_BLOCK_SIZE 0 sm3_absorb_block
                             (sm3_dgst c, sm3_nblocks c)
                             (pending (sm3_num c) (sm3_block c) @ data)
      in c\<lparr>sm3_dgst := fst s, sm3_nblocks := snd s,
            sm3_block := store (sm3_block c) rest, sm3_num := length rest\<rparr>)"

text \<open>Modelled from the spec: the padding of the last block, missing with the library
  (section 3: ``append \<open>0x80\<close>, zero-pad, 64-bit bit-length suffix'').  \<open>n\<close> is the number
  of pending bytes.\<close>

definition sm3_padding :: "64 word \<Rightarrow> nat \<Rightarrow> bytes" where
  "sm3_padding nblocks n =
     [0x80] @ replicate (if n \<le> 55 then 55 - n else 119 - n) 0
     @ PUTU64 (push_bit 9 nblocks + push_bit 3 (of_nat n))"

text \<open>Modelled from the spec: the library function \<^verbatim>\<open>sm3_finish\<close>, missing from the source
  (section 4.1: ``pads and compresses the final block(s), returns the 32-byte digest'';
  section 6: ``32 raw bytes, big-endian word order'').\<close>

definition spec_sm3_finish :: "Sm3 \<Rightarrow> Sm3 \<times> bytes" where
  "spec_sm3_finish c =
     (let p = pending (sm3_num c) (sm3_block c);
          (s, out, rest) = absorb SM3_BLOCK_SIZE 0 sm3_absorb_block
                             (sm3_dgst c, sm3_nblocks c)
                             (p @ sm3_padding (sm3_nblocks c) (length p))
      in (c\<lparr>sm3_dgst := fst s\<rparr>, concat (map PUTU32 (fst s))))"

subsection \<open>SM4\<close>

text \<open>The parts of the library the specification only names: the 8-bit S-box of SM4
  (section 4.2: ``S-box substitution (8-bit nonlinear table)''), the key loading of ZUC
  and its word generator (section 4.6).  The model takes them as parameters.\<close>

record primitives =
  sm4_sbox :: "byte \<Rightarrow> byte"
  zuc_load :: "bytes \<Rightarrow> bytes \<Rightarrow> ZucState"
  zuc_word :: "ZucState \<Rightarrow> 32 word \<times> ZucState"

text \<open>Modelled from the spec: the system parameter \<open>FK\<close> of the SM4 key expansion, missing with
  the library (section 4.2: ``the SM4 key-expansion schedule'').\<close>

definition sm4_FK :: "32 word list" where
  "sm4_FK = [0xa3b1bac6, 0x56aa3350, 0x677d9197, 0xb27022dc]"

text \<open>Modelled from the spec: the fixed parameters \<open>CK\<close> of the SM4 key expansion, missing
  with the library (section 4.2).\<close>

definition sm4_CK :: "nat \<Rightarrow> 32 word" where
  "sm4_CK i = GETU32 (map (\<lambda>j. of_nat ((4 * i + j) * 7)) [0..<4])"

text \<open>Modelled from the spec: the S-box applied to the four bytes of a word, missing with the
  library (section 4.2: ``S-box substitution'').\<close>

definition sm4_tau :: "(byte \<Rightarrow> byte) \<Rightarrow> 32 word \<Rightarrow> 32 word" where
  "sm4_tau sbox a = GETU32 (map sbox (PUTU32 a))"

text \<open>Modelled from the spec: the linear diffusion transform of the SM4 rounds, missing with
  the library (section 4.2: ``a linear diffusion transform'').\<close>

definition sm4_L :: "32 word \<Rightarrow> 32 word" where
  "sm4_L b = b XOR ROL32 b 2 XOR ROL32 b 10 XOR ROL32 b 18 XOR ROL32 b 24"

text \<open>Modelled from the spec: the linear transform of the SM4 key expansion, missing with the
  library (section 4.2: ``reusing the cipher's S-box and linear transform'').\<close>

definition sm4_L' :: "32 word \<Rightarrow> 32 word" where
  "sm4_L' b = b XOR ROL32 b 13 XOR ROL32 b 23"

text \<open>Modelled from the spec: one Feistel round of SM4 on a state of four words, with round
  function \<open>t\<close> and round key \<open>k\<close>, missing with the library (section 4.2: ``32 Feistel
  rounds'').\<close>

definition sm4_step ::
  "(32 word \<Rightarrow> 32 word) \<Rightarrow> 32 word \<Rightarrow> 32 word list \<Rightarrow> 32 word list" where
  "sm4_step t k X =
     (case X of
        [x0, x1, x2, x3] \<Rightarrow> [x1, x2, x3, x0 XOR t (x1 XOR x2 XOR x3 XOR k)]
      | _ \<Rightarrow> X)"

text \<open>Modelled from the spec: the four big-endian words of a 16-byte block, missing with the
  library (section 6: ``16-byte input/output blocks'').\<close>

definition words_of :: "bytes \<Rightarrow> 32 word list" where
  "words_of blk = map (\<lambda>i. GETU32 (drop (4 * i) blk)) [0..<4]"

text \<open>Modelled from the spec: the 32 round keys of a 16-byte key, missing with the library
  (section 3: ``32 32-bit round keys derived once from a 16-byte key'').\<close>

definition sm4_key_schedule :: "(byte \<Rightarrow> byte) \<Rightarrow> bytes \<Rightarrow> 32 word list" where
  "sm4_key_schedule sbox key =
     drop 4 (fold (\<lambda>i K. K @ [last (sm4_step (sm4_L' \<circ> sm4_tau sbox) (sm4_CK i) (drop i K))])
               [0..<32] (map2 (XOR) (words_of key) sm4_FK))"

text \<open>Modelled from the spec: SM4 on one block with the round keys \<open>rks\<close>, missing with the
  library (section 4.2: ``applies 32 Feistel rounds \<dots> then a final reverse-word-order
  output step'').\<close>

definition sm4_crypt :: "(byte \<Rightarrow> byte) \<Rightarrow> 32 word list \<Rightarrow> bytes \<Rightarrow> bytes" where
  "sm4_crypt sbox rks blk =
     concat (map PUTU32 (rev (fold (sm4_step (sm4_L \<circ> sm4_tau sbox)) rks (words_of blk))))"

text \<open>Modelled from the spec: the library function \<^verbatim>\<open>sm4_set_encrypt_key\<close>, missing from the
  source (section 4.2).\<close>

definition spec_sm4_set_encrypt_key :: "primitives \<Rightarrow> Sm4 \<Rightarrow> bytes \<Rightarrow> Sm4" where
  "spec_sm4_set_encrypt_key P c key = c\<lparr>sm4_rk := sm4_key_schedule (sm4_sbox P) key\<rparr>"

text \<open>Modelled from the spec: the library function \<^verbatim>\<open>sm4_set_decrypt_key\<close>, missing from the
  source (section 3: ``encrypt vs decrypt schedules differ in round-key order'').\<close>

definition spec_sm4_set_decrypt_key :: "primitives \<Rightarrow> Sm4 \<Rightarrow> bytes \<Rightarrow> Sm4" where
  "spec_sm4_set_decrypt_key P c key = c\<lparr>sm4_rk := rev (sm4_key_schedule (sm4_sbox P) key)\<rparr>"

text \<open>Modelled from the spec: the library function \<^verbatim>\<open>sm4_encrypt\<close>, missing from the source
  (section 4.2: ``pure function of (key schedule, block)'').\<close>

definition spec_sm4_encrypt :: "primitives \<Rightarrow> Sm4 \<Rightarrow> bytes \<Rightarrow> bytes" where
  "spec_sm4_encrypt P c blk = sm4_crypt (sm4_sbox P) (sm4_rk c) blk"

text \<open>Modelled from the spec: the 8-bit table of SM4, missing with the library
  (section 4.2: ``S-box substitution (8-bit nonlinear table)'').  The values are those of
  the SM4 standard, laid out as the standard prints them: row by the high four bits of
  the byte, column by the low four bits.  The theorems below hold for every table; this
  one is used where a method is evaluated.\<close>

definition sm4_SBOX :: "byte list list" where
  "sm4_SBOX = [
    [0xd6, 0x90, 0xe9, 0xfe, 0xcc, 0xe1, 0x3d, 0xb7, 0x16, 0xb6, 0x14, 0xc2, 0x28, 0xfb, 0x2c, 0x05],
    [0x2b, 0x67, 0x9a, 0x76, 0x2a, 0xbe, 0x04, 0xc3, 0xaa, 0x44, 0x13, 0x26, 0x49, 0x86, 0x06, 0x99],
    [0x9c, 0x42, 0x50, 0xf4, 0x91, 0xef, 0x98, 0x7a, 0x33, 0x54, 0x0b, 0x43, 0xed, 0xcf, 0xac, 0x62],
    [0xe4, 0xb3, 0x1c, 0xa9, 0xc9, 0x08, 0xe8, 0x95, 0x80, 0xdf, 0x94, 0xfa, 0x75, 0x8f, 0x3f, 0xa6],
    [0x47, 0x07, 0xa7, 0xfc, 0xf3, 0x73, 0x17, 0xba, 0x83, 0x59, 0x3c, 0x19, 0xe6, 0x85, 0x4f, 0xa8],
    [0x68, 0x6b, 0x81, 0xb2, 0x71, 0x64, 0xda, 0x8b, 0xf8, 0xeb, 0x0f, 0x4b, 0x70, 0x56, 0x9d, 0x35],
    [0x1e, 0x24, 0x0e, 0x5e, 0x63, 0x58, 0xd1, 0xa2, 0x25, 0x22, 0x7c, 0x3b, 0x01, 0x21, 0x78, 0x87],
    [0xd4, 0x00, 0x46, 0x57, 0x9f, 0xd3, 0x27, 0x52, 0x4c, 0x36, 0x02, 0xe7, 0xa0, 0xc4, 0xc8, 0x9e],
    [0xea, 0xbf, 0x8a, 0xd2, 0x40, 0xc7, 0x38, 0xb5, 0xa3, 0xf7, 0xf2, 0xce, 0xf9, 0x61, 0x15, 0xa1],
    [0xe0, 0xae, 0x5d, 0xa4, 0x9b, 0x34, 0x1a, 0x55, 0xad, 0x93, 0x32, 0x30, 0xf5, 0x8c, 0xb1, 0xe3],
    [0x1d, 0xf6, 0xe2, 0x2e, 0x82, 0x66, 0xca, 0x60, 0xc0, 0x29, 0x23, 0xab, 0x0d, 0x53, 0x4e, 0x6f],
    [0xd5, 0xdb, 0x37, 0x45, 0xde, 0xfd, 0x8e, 0x2f, 0x03, 0xff, 0x6a, 0x72, 0x6d, 0x6c, 0x5b, 0x51],
    [0x8d, 0x1b, 0xaf, 0x92, 0xbb, 0xdd, 0xbc, 0x7f, 0x11, 0xd9, 0x5c, 0x41, 0x1f, 0x10, 0x5a, 0xd8],
    [0x0a, 0xc1, 0x31, 0x88, 0xa5, 0xcd, 0x7b, 0xbd, 0x2d, 0x74, 0xd0, 0x12, 0xb8, 0xe5, 0xb4, 0xb0],
    [0x89, 0x69, 0x97, 0x4a, 0x0c, 0x96, 0x77, 0x7e, 0x65, 0xb9, 0xf1, 0x09, 0xc5, 0x6e, 0xc6, 0x84],
    [0x18, 0xf0, 0x7d, 0xec, 0x3a, 0xdc, 0x4d, 0x20, 0x79, 0xee, 0x5f, 0x3e, 0xd7, 0xcb, 0x39, 0x48]]"

definition standard_sbox :: "byte \<Rightarrow> byte" where
  "standard_sbox b = sm4_SBOX ! unat (drop_bit 4 b) ! unat (take_bit 4 b)"

subsection \<open>CBC\<close>

text \<open>Modelled from the spec: CBC encryption of one block, missing with the library
  (section 4.3: ``XORs each complete plaintext block with the previous ciphertext block (or
  IV for the first) before \<dots> block-cipher transform'').  The state is the running
  IV.\<close>

definition cbc_encrypt_block :: "(bytes \<Rightarrow> bytes) \<Rightarrow> bytes \<Rightarrow> bytes \<Rightarrow> bytes \<times> bytes" where
  "cbc_encrypt_block E iv blk = (let c = E (xor_bytes blk iv) in (c, c))"

text \<open>Modelled from the spec: CBC decryption of one block, missing with the library
  (section 4.3: the XOR ``after block-cipher transform'' on decrypt).\<close>

definition cbc_decrypt_block :: "(bytes \<Rightarrow> bytes) \<Rightarrow> bytes \<Rightarrow> bytes \<Rightarrow> bytes \<times> bytes" where
  "cbc_decrypt_block D iv blk = (blk, xor_bytes (D blk) iv)"

text \<open>Modelled from the spec: the library function \<^verbatim>\<open>sm4_cbc_encrypt_init\<close>, missing from
  the source (section 4.3: ``constructed with a direction flag, 16-byte key, 16-byte
  IV'').\<close>

definition spec_sm4_cbc_encrypt_init ::
  "primitives \<Rightarrow> Sm4Cbc_fields \<Rightarrow> bytes \<Rightarrow> bytes \<Rightarrow> Sm4Cbc_fields coded" where
  "spec_sm4_cbc_encrypt_init P c key iv =
     (1, \<lparr>cbc_sm4_key = spec_sm4_set_encrypt_key P (cbc_sm4_key c) key, cbc_iv = iv,
          cbc_block = replicate SM4_BLOCK_SIZE 0, cbc_block_nbytes = 0\<rparr>)"

text \<open>Modelled from the spec: the library function \<^verbatim>\<open>sm4_cbc_decrypt_init\<close>, missing from
  the source (section 4.3).\<close>

definition spec_sm4_cbc_decrypt_init ::
  "primitives \<Rightarrow> Sm4Cbc_fields \<Rightarrow> bytes \<Rightarrow> bytes \<Rightarrow> Sm4Cbc_fields coded" where
  "spec_sm4_cbc_decrypt_init P c key iv =
     (1, \<lparr>cbc_sm4_key = spec_sm4_set_decrypt_key P (cbc_sm4_key c) key, cbc_iv = iv,
          cbc_block = replicate SM4_BLOCK_SIZE 0, cbc_block_nbytes = 0\<rparr>)"

text \<open>Modelled from the spec: the library function \<^verbatim>\<open>sm4_cbc_encrypt_update\<close>, missing
  from the source (section 4.3: ``buffers any trailing partial block, returns only
  fully-produced output bytes''; section 3: ``partial-block buffer never exceeds one
  block'').\<close>

definition spec_sm4_cbc_encrypt_update ::
  "primitives \<Rightarrow> Sm4Cbc_fields \<Rightarrow> bytes \<Rightarrow> Sm4Cbc_fields filled" where
  "spec_sm4_cbc_encrypt_update P c data =
     (if cbc_block_nbytes c \<ge> SM4_BLOCK_SIZE then (- 1, c, [], 0)
      else
        (let (iv, out, rest) =
               absorb SM4_BLOCK_SIZE 0 (cbc_encrypt_block (spec_sm4_encrypt P (cbc_sm4_key c)))
                 (cbc_iv c) (pending (cbc_block_nbytes c) (cbc_block c) @ data)
         in (1, c\<lparr>cbc_iv := iv, cbc_block := store (cbc_block c) rest,
                   cbc_block_nbytes := length rest\<rparr>, out, length out)))"

text \<open>Modelled from the spec: the library function \<^verbatim>\<open>sm4_cbc_decrypt_update\<close>, missing
  from the source (section 4.3).  The last complete block is held back, since
  \<^verbatim>\<open>finish\<close> has to strip its padding.\<close>

definition spec_sm4_cbc_decrypt_update ::
  "primitives \<Rightarrow> Sm4Cbc_fields \<Rightarrow> bytes \<Rightarrow> Sm4Cbc_fields filled" where
  "spec_sm4_cbc_decrypt_update P c data =
     (if cbc_block_nbytes c > SM4_BLOCK_SIZE then (- 1, c, [], 0)
      else
        (let (iv, out, rest) =
               absorb SM4_BLOCK_SIZE 1 (cbc_decrypt_block (spec_sm4_encrypt P (cbc_sm4_key c)))
                 (cbc_iv c) (pending (cbc_block_nbytes c) (cbc_block c) @ data)
         in (1, c\<lparr>cbc_iv := iv, cbc_block := store (cbc_block c) rest,
                   cbc_block_nbytes := length rest\<rparr>, out, length out)))"

text \<open>Modelled from the spec: the padding of the last block, missing with the library
  (section 4.3: ``PKCS-style padding (pad value = number of padding bytes, 1--16)'').\<close>

definition pkcs_pad :: "bytes \<Rightarrow> bytes" where
  "pkcs_pad p = p @ replicate (SM4_BLOCK_SIZE - length p) (of_nat (SM4_BLOCK_SIZE - length p))"

text \<open>Modelled from the spec: validation and removal of the padding, missing with the
  library (section 4.3: ``validates and strips padding, failing \<dots> if the final byte's
  padding is malformed or inconsistent'').\<close>

definition pkcs_unpad :: "bytes \<Rightarrow> bytes option" where
  "pkcs_unpad blk =
     (if blk = [] then None
      else let n = unat (last blk)
           in if n < 1 \<or> n > SM4_BLOCK_SIZE \<or> n > length blk then None
              else if drop (length blk - n) blk \<noteq> replicate n (last blk) then None
              else Some (take (length blk - n) blk))"

text \<open>Modelled from the spec: the library function \<^verbatim>\<open>sm4_cbc_encrypt_finish\<close>, missing
  from the source (section 4.3).\<close>

definition spec_sm4_cbc_encrypt_finish ::
  "primitives \<Rightarrow> Sm4Cbc_fields \<Rightarrow> Sm4Cbc_fields filled" where
  "spec_sm4_cbc_encrypt_finish P c =
     (if cbc_block_nbytes c \<ge> SM4_BLOCK_SIZE then (- 1, c, [], 0)
      else
        (let (iv, out) = cbc_encrypt_block (spec_sm4_encrypt P (cbc_sm4_key c)) (cbc_iv c)
                           (pkcs_pad (pending (cbc_block_nbytes c) (cbc_block c)))
         in (1, c\<lparr>cbc_iv := iv\<rparr>, out, length out)))"

text \<open>Modelled from the spec: the library function \<^verbatim>\<open>sm4_cbc_decrypt_finish\<close>, missing
  from the source (section 4.3; section 9: the padding failure is reported like any
  other failure of the library).\<close>

definition spec_sm4_cbc_decrypt_finish ::
  "primitives \<Rightarrow> Sm4Cbc_fields \<Rightarrow> Sm4Cbc_fields filled" where
  "spec_sm4_cbc_decrypt_finish P c =
     (if cbc_block_nbytes c \<noteq> SM4_BLOCK_SIZE then (- 1, c, [], 0)
      else
        (let (iv, blk) = cbc_decrypt_block (spec_sm4_encrypt P (cbc_sm4_key c)) (cbc_iv c)
                           (pending (cbc_block_nbytes c) (cbc_block c))
         in case pkcs_unpad blk of
              None \<Rightarrow> (- 1, c, [], 0)
            | Some out \<Rightarrow> (1, c\<lparr>cbc_iv := iv\<rparr>, out, length out)))"

subsection \<open>CTR\<close>

text \<open>Modelled from the spec: increment of a little-endian byte string with wraparound,
  missing with the library; the counter increment below reverses it.\<close>

fun incr_le :: "bytes \<Rightarrow> bytes" where
  "incr_le [] = []"
| "incr_le (b # bs) = (if b + 1 = 0 then 0 # incr_le bs else (b + 1) # bs)"

text \<open>Modelled from the spec: the increment of the 128-bit counter, missing with the library
  (section 4.4: ``big-endian increment with wraparound'').\<close>

definition ctr_incr :: "bytes \<Rightarrow> bytes" where
  "ctr_incr a = rev (incr_le (rev a))"

text \<open>Modelled from the spec: CTR on one block or on the last partial block, missing with
  the library (section 4.4: ``XORs keystream (SM4 encryption of the incrementing 128-bit
  counter \<dots>) against input bytes'').  The state is the counter.\<close>

definition ctr_encrypt_block ::
  "(bytes \<Rightarrow> bytes) \<Rightarrow> (bytes \<Rightarrow> bytes) \<Rightarrow> bytes \<Rightarrow> bytes \<Rightarrow> bytes \<times> bytes" where
  "ctr_encrypt_block E incr c blk = (incr c, xor_bytes blk (E c))"

text \<open>Modelled from the spec: the library function \<^verbatim>\<open>sm4_ctr_encrypt_init\<close>, missing from
  the source (section 4.4: ``constructed with key, 16-byte IV-as-initial-counter'').\<close>

definition spec_sm4_ctr_encrypt_init ::
  "primitives \<Rightarrow> Sm4Ctr \<Rightarrow> bytes \<Rightarrow> bytes \<Rightarrow> Sm4Ctr coded" where
  "spec_sm4_ctr_encrypt_init P c key iv =
     (1, \<lparr>ctr_sm4_key = spec_sm4_set_encrypt_key P (ctr_sm4_key c) key, ctr_ctr = iv,
          ctr_block = replicate SM4_BLOCK_SIZE 0, ctr_block_nbytes = 0\<rparr>)"

text \<open>Modelled from the spec: the update of a CTR stream with the counter increment \<open>incr\<close>,
  missing with the library (section 4.4: ``handling partial blocks via a carried
  buffer'').  CTR uses it with the 128-bit increment and GCM with the 32-bit one.\<close>

definition ctr_update ::
  "primitives \<Rightarrow> (bytes \<Rightarrow> bytes) \<Rightarrow> Sm4Ctr \<Rightarrow> bytes \<Rightarrow> Sm4Ctr filled" where
  "ctr_update P incr c data =
     (if ctr_block_nbytes c \<ge> SM4_BLOCK_SIZE then (- 1, c, [], 0)
      else
        (let (n, out, rest) =
               absorb SM4_BLOCK_SIZE 0
                 (ctr_encrypt_block (spec_sm4_encrypt P (ctr_sm4_key c)) incr)
                 (ctr_ctr c) (pending (ctr_block_nbytes c) (ctr_block c) @ data)
         in (1, c\<lparr>ctr_ctr := n, ctr_block := store (ctr_block c) rest,
                   ctr_block_nbytes := length rest\<rparr>, out, length out)))"

text \<open>Modelled from the spec: the end of a CTR stream, missing with the library
  (section 4.4: ``flushes any buffered partial-block keystream-XOR output \<dots> never
  fails on content grounds'').\<close>

definition ctr_finish ::
  "primitives \<Rightarrow> (bytes \<Rightarrow> bytes) \<Rightarrow> Sm4Ctr \<Rightarrow> Sm4Ctr filled" where
  "ctr_finish P incr c =
     (if ctr_block_nbytes c \<ge> SM4_BLOCK_SIZE then (- 1, c, [], 0)
      else
        (let p = pending (ctr_block_nbytes c) (ctr_block c);
             (n, out) = ctr_encrypt_block (spec_sm4_encrypt P (ctr_sm4_key c)) incr (ctr_ctr c) p
         in (1, c\<lparr>ctr_ctr := (if p = [] then ctr_ctr c else n)\<rparr>, out, length out)))"

text \<open>Modelled from the spec: the library function \<^verbatim>\<open>sm4_ctr_encrypt_update\<close>, missing
  from the source (section 4.4).\<close>

definition spec_sm4_ctr_encrypt_update :: "primitives \<Rightarrow> Sm4Ctr \<Rightarrow> bytes \<Rightarrow> Sm4Ctr filled" where
  "spec_sm4_ctr_encrypt_update P = ctr_update P ctr_incr"

text \<open>Modelled from the spec: the library function \<^verbatim>\<open>sm4_ctr_encrypt_finish\<close>, missing
  from the source (section 4.4).\<close>

definition spec_sm4_ctr_encrypt_finish :: "primitives \<Rightarrow> Sm4Ctr \<Rightarrow> Sm4Ctr filled" where
  "spec_sm4_ctr_encrypt_finish P = ctr_finish P ctr_incr"

subsection \<open>ZUC\<close>

text \<open>Modelled from the spec: ZUC on one word or on the last partial word, missing with
  the library (section 4.6: ``generate keystream words \<dots>, XOR against input, advance
  the LFSR each word'').  \<open>gen\<close> is the word generator.\<close>

definition zuc_encrypt_word ::
  "(ZucState \<Rightarrow> 32 word \<times> ZucState) \<Rightarrow> ZucState \<Rightarrow> bytes \<Rightarrow> ZucState \<times> bytes" where
  "zuc_encrypt_word gen st blk = (let (z, st') = gen st in (st', xor_bytes blk (PUTU32 z)))"

text \<open>Modelled from the spec: the library function \<^verbatim>\<open>zuc_encrypt_init\<close>, missing from the
  source (section 4.6: ``runs the ZUC key-loading and 32-round initialization producing
  the LFSR and register state'').\<close>

definition spec_zuc_encrypt_init :: "primitives \<Rightarrow> Zuc \<Rightarrow> bytes \<Rightarrow> bytes \<Rightarrow> Zuc coded" where
  "spec_zuc_encrypt_init P c key iv =
     (1, \<lparr>zuc_state = zuc_load P key iv, zuc_block = replicate 4 0, zuc_block_nbytes = 0\<rparr>)"

text \<open>Modelled from the spec: the library function \<^verbatim>\<open>zuc_encrypt_update\<close>, missing from
  the source (section 4.6: ``same partial-word buffering discipline as CTR''; section 3:
  ``keystream buffer never exceeds its word size'').\<close>

definition spec_zuc_encrypt_update :: "primitives \<Rightarrow> Zuc \<Rightarrow> bytes \<Rightarrow> Zuc filled" where
  "spec_zuc_encrypt_update P c data =
     (if zuc_block_nbytes c \<ge> 4 then (- 1, c, [], 0)
      else
        (let (st, out, rest) =
               absorb 4 0 (zuc_encrypt_word (zuc_word P))
                 (zuc_state c) (pending (zuc_block_nbytes c) (zuc_block c) @ data)
         in (1, c\<lparr>zuc_state := st, zuc_block := store (zuc_block c) rest,
                   zuc_block_nbytes := length rest\<rparr>, out, length out)))"

text \<open>Modelled from the spec: the library function \<^verbatim>\<open>zuc_encrypt_finish\<close>, missing from
  the source (section 4.6).\<close>

definition spec_zuc_encrypt_finish :: "primitives \<Rightarrow> Zuc \<Rightarrow> Zuc filled" where
  "spec_zuc_encrypt_finish P c =
     (if zuc_block_nbytes c \<ge> 4 then (- 1, c, [], 0)
      else
        (let p = pending (zuc_block_nbytes c) (zuc_block c);
             (st, out) = zuc_encrypt_word (zuc_word P) (zuc_state c) p
         in (1, c\<lparr>zuc_state := (if p = [] then zuc_state c else st)\<rparr>, out, length out)))"

subsection \<open>GHASH and GCM\<close>

text \<open>Modelled from the spec: an element of GF(2^128) read from a 16-byte block, missing
  with the library (section 4.5).\<close>

definition gf128_from_bytes :: "bytes \<Rightarrow> gf128_t" where
  "gf128_from_bytes bs = \<lparr>gf_hi = GETU64 bs, gf_lo = GETU64 (drop 8 bs)\<rparr>"

text \<open>Modelled from the spec: the 16 bytes of an element of GF(2^128), missing with the
  library (section 4.5).\<close>

definition gf128_to_bytes :: "gf128_t \<Rightarrow> bytes" where
  "gf128_to_bytes a = PUTU64 (gf_hi a) @ PUTU64 (gf_lo a)"

text \<open>Modelled from the spec: addition in GF(2^128), missing with the library
  (section 4.5: the XOR of \<open>(X XOR block) \<cdot> H\<close>).\<close>

definition gf128_add :: "gf128_t \<Rightarrow> gf128_t \<Rightarrow> gf128_t" where
  "gf128_add a b = \<lparr>gf_hi = gf_hi a XOR gf_hi b, gf_lo = gf_lo a XOR gf_lo b\<rparr>"

text \<open>Modelled from the spec: an element of GF(2^128) as one 128-bit word, missing with the
  library.\<close>

definition gf128_word :: "gf128_t \<Rightarrow> 128 word" where
  "gf128_word a = push_bit 64 (ucast (gf_hi a)) OR ucast (gf_lo a)"

text \<open>Modelled from the spec: the element of GF(2^128) that a 128-bit word stands for,
  missing with the library.\<close>

definition gf128_of_word :: "128 word \<Rightarrow> gf128_t" where
  "gf128_of_word w = \<lparr>gf_hi = ucast (drop_bit 64 w), gf_lo = ucast w\<rparr>"

text \<open>Modelled from the spec: one step of the multiplication in GF(2^128), for bit \<open>i\<close> of
  the first factor counted from the left, missing with the library (section 4.5: ``field
  multiplication per the standard reduction polynomial'').\<close>

definition gf128_mul_bit :: "128 word \<Rightarrow> nat \<Rightarrow> 128 word \<times> 128 word \<Rightarrow> 128 word \<times> 128 word" where
  "gf128_mul_bit a i zv =
     (if bit a (127 - i) then fst zv XOR snd zv else fst zv,
      if bit (snd zv) 0 then drop_bit 1 (snd zv) XOR push_bit 120 0xe1 else drop_bit 1 (snd zv))"

text \<open>Modelled from the spec: multiplication in GF(2^128), missing with the library
  (section 4.5).\<close>

definition gf128_mul :: "gf128_t \<Rightarrow> gf128_t \<Rightarrow> gf128_t" where
  "gf128_mul a b = gf128_of_word (fst (fold (gf128_mul_bit (gf128_word a)) [0..<128] (0, gf128_word b)))"

text \<open>Modelled from the spec: zero padding to a multiple of 16 bytes, missing with the
  library; GHASH runs over whole blocks (section 4.5).\<close>

definition zero_pad :: "bytes \<Rightarrow> bytes" where
  "zero_pad bs = bs @ replicate ((16 - length bs mod 16) mod 16) 0"

text \<open>Modelled from the spec: the block function of GHASH, missing with the library
  (section 4.5: ``\<open>X_i = (X_{i-1} XOR block_i) \<cdot> H\<close>'').\<close>

definition ghash_absorb_block :: "gf128_t \<Rightarrow> gf128_t \<Rightarrow> bytes \<Rightarrow> gf128_t \<times> bytes" where
  "ghash_absorb_block h a blk = (gf128_mul (gf128_add a (gf128_from_bytes blk)) h, [])"

text \<open>Modelled from the spec: the start of GHASH with the hash key \<open>h\<close>, over the associated
  data, missing with the library (section 4.5: ``GHASH over AAD then ciphertext'').\<close>

definition ghash_init :: "Ghash \<Rightarrow> bytes \<Rightarrow> bytes \<Rightarrow> Ghash" where
  "ghash_init c h aad =
     \<lparr>ghash_H = gf128_from_bytes h,
      ghash_X = fst (absorb 16 0 (ghash_absorb_block (gf128_from_bytes h))
                       \<lparr>gf_hi = 0, gf_lo = 0\<rparr> (zero_pad aad)),
      ghash_aadlen = length aad, ghash_clen = 0,
      ghash_block = replicate 16 0, ghash_num = 0\<rparr>"

text \<open>Modelled from the spec: GHASH over more ciphertext, missing with the library
  (section 3: ``a 128-bit running authentication accumulator and byte counts for AAD and
  ciphertext'').\<close>

definition ghash_update :: "Ghash \<Rightarrow> bytes \<Rightarrow> Ghash" where
  "ghash_update c data =
     (let (a, out, rest) = absorb 16 0 (ghash_absorb_block (ghash_H c)) (ghash_X c)
                             (pending (ghash_num c) (ghash_block c) @ data)
      in c\<lparr>ghash_X := a, ghash_clen := ghash_clen c + length data,
            ghash_block := store (ghash_block c) rest, ghash_num := length rest\<rparr>)"

text \<open>Modelled from the spec: the end of GHASH, missing with the library (section 3: the
  byte counts are ``used to build the final length block for tag computation'').\<close>

definition ghash_finish :: "Ghash \<Rightarrow> bytes" where
  "ghash_finish c =
     (let a = fst (absorb 16 0 (ghash_absorb_block (ghash_H c)) (ghash_X c)
                     (zero_pad (pending (ghash_num c) (ghash_block c))));
          lens = PUTU64 (push_bit 3 (of_nat (ghash_aadlen c)))
                 @ PUTU64 (push_bit 3 (of_nat (ghash_clen c)))
      in gf128_to_bytes (fst (ghash_absorb_block (ghash_H c) a lens)))"

text \<open>Modelled from the spec: the counter increment of GCM, on the last four bytes, missing
  with the library (section 4.5: ``CTR-mode encryption'' with the counter \<open>IV\<parallel>0^31\<parallel>1\<close>).\<close>

definition ctr32_incr :: "bytes \<Rightarrow> bytes" where
  "ctr32_incr a = take 12 a @ ctr_incr (drop 12 a)"

text \<open>Modelled from the spec: the library functions \<^verbatim>\<open>sm4_gcm_encrypt_init\<close> and
  \<^verbatim>\<open>sm4_gcm_decrypt_init\<close>, missing from the source (section 4.5: ``validates key
  length = 16, IV length in [1,64], tag length in [1,16]''; ``\<open>H = SM4_encrypt(key,
  0^128)\<close>''; ``counter initialized from a hashed/derived value when IV length \<open>\<noteq>\<close> 12,
  else \<open>IV\<parallel>0^31\<parallel>1\<close>'').\<close>

definition gcm_init ::
  "primitives \<Rightarrow> Sm4Gcm_fields \<Rightarrow> bytes \<Rightarrow> bytes \<Rightarrow> bytes \<Rightarrow> nat \<Rightarrow> Sm4Gcm_fields coded" where
  "gcm_init P c key iv aad tlen =
     (if length key \<noteq> SM4_KEY_SIZE \<or> length iv < SM4_GCM_MIN_IV_SIZE
         \<or> length iv > SM4_GCM_MAX_IV_SIZE \<or> tlen < 1 \<or> tlen > SM4_GCM_MAX_TAG_SIZE
      then (- 1, c)
      else
        (let k = spec_sm4_set_encrypt_key P (ctr_sm4_key (gcm_sm4_ctr_ctx c)) key;
             h = spec_sm4_encrypt P k (replicate 16 0);
             y0 = (if length iv = SM4_GCM_DEFAULT_IV_SIZE then iv @ [0, 0, 0, 1]
                   else ghash_finish (ghash_update (ghash_init Ghash_new h []) iv))
         in (1, \<lparr>gcm_sm4_ctr_ctx =
                    \<lparr>ctr_sm4_key = k, ctr_ctr = ctr32_incr y0,
                     ctr_block = replicate SM4_BLOCK_SIZE 0, ctr_block_nbytes = 0\<rparr>,
                  gcm_mac_ctx = ghash_init (gcm_mac_ctx c) h aad,
                  gcm_Y = spec_sm4_encrypt P k y0,
                  gcm_taglen = tlen,
                  gcm_mac = replicate 16 0,
                  gcm_maclen = 0\<rparr>)))"

text \<open>Modelled from the spec: the tag over the hash state \<open>g\<close>, missing with the library
  (section 4.5: ``tag = GHASH-result XOR SM4_encrypt(key, initial-counter-block) truncated
  to the configured tag length'').\<close>

definition gcm_tag :: "Sm4Gcm_fields \<Rightarrow> Ghash \<Rightarrow> bytes" where
  "gcm_tag c g = take (gcm_taglen c) (xor_bytes (ghash_finish g) (gcm_Y c))"

text \<open>Modelled from the spec: the library function \<^verbatim>\<open>sm4_gcm_encrypt_update\<close>, missing
  from the source (section 4.5: CTR-mode encryption, GHASH over the ciphertext).\<close>

definition spec_sm4_gcm_encrypt_update ::
  "primitives \<Rightarrow> Sm4Gcm_fields \<Rightarrow> bytes \<Rightarrow> Sm4Gcm_fields filled" where
  "spec_sm4_gcm_encrypt_update P c data =
     (let (ret, cc, out, outlen) = ctr_update P ctr32_incr (gcm_sm4_ctr_ctx c) data
      in if ret \<noteq> 1 then (- 1, c, [], 0)
         else (1, c\<lparr>gcm_sm4_ctr_ctx := cc, gcm_mac_ctx := ghash_update (gcm_mac_ctx c) out\<rparr>,
               out, outlen))"

text \<open>Modelled from the spec: the library function \<^verbatim>\<open>sm4_gcm_encrypt_finish\<close>, missing
  from the source (section 6: the tag is ``appended by convention after ciphertext in
  \<open>finish()\<close> output for encrypt'').\<close>

definition spec_sm4_gcm_encrypt_finish ::
  "primitives \<Rightarrow> Sm4Gcm_fields \<Rightarrow> Sm4Gcm_fields filled" where
  "spec_sm4_gcm_encrypt_finish P c =
     (let (ret, cc, out, outlen) = ctr_finish P ctr32_incr (gcm_sm4_ctr_ctx c)
      in if ret \<noteq> 1 then (- 1, c, [], 0)
         else
           (let g = ghash_update (gcm_mac_ctx c) out;
                res = out @ gcm_tag c g
            in (1, c\<lparr>gcm_sm4_ctr_ctx := cc, gcm_mac_ctx := g\<rparr>, res, length res)))"

text \<open>Modelled from the spec: the library function \<^verbatim>\<open>sm4_gcm_decrypt_update\<close>, missing
  from the source (section 4.5: ``the tag-extraction bookkeeping (knowing which trailing
  bytes of the ciphertext stream are tag vs content) requires a complete buffering
  strategy'').  The last bytes received, as many as the tag is long, are held back in
  \<open>mac\<close>; what comes before them is ciphertext.\<close>

definition spec_sm4_gcm_decrypt_update ::
  "primitives \<Rightarrow> Sm4Gcm_fields \<Rightarrow> bytes \<Rightarrow> Sm4Gcm_fields filled" where
  "spec_sm4_gcm_decrypt_update P c data =
     (if gcm_maclen c > gcm_taglen c then (- 1, c, [], 0)
      else
        (let total = pending (gcm_maclen c) (gcm_mac c) @ data;
             n = length total - gcm_taglen c;
             (ret, cc, out, outlen) = ctr_update P ctr32_incr (gcm_sm4_ctr_ctx c) (take n total)
         in if ret \<noteq> 1 then (- 1, c, [], 0)
            else (1, c\<lparr>gcm_sm4_ctr_ctx := cc,
                       gcm_mac_ctx := ghash_update (gcm_mac_ctx c) (take n total),
                       gcm_mac := store (gcm_mac c) (drop n total),
                       gcm_maclen := length (drop n total)\<rparr>,
                  out, outlen)))"

text \<open>Modelled from the spec: the library function \<^verbatim>\<open>sm4_gcm_decrypt_finish\<close>, missing
  from the source (section 4.5: ``must compute the expected tag and compare it against
  the trailing tag bytes supplied via prior \<open>update\<close> calls \<dots> failing \<dots> when they
  mismatch'').  The code for a tag that does not match is 0; the code when the check
  cannot run is \<open>-1\<close> (section 7 tells the two apart).\<close>

definition spec_sm4_gcm_decrypt_finish ::
  "primitives \<Rightarrow> Sm4Gcm_fields \<Rightarrow> Sm4Gcm_fields filled" where
  "spec_sm4_gcm_decrypt_finish P c =
     (if gcm_maclen c \<noteq> gcm_taglen c then (- 1, c, [], 0)
      else
        (let (ret, cc, out, outlen) = ctr_finish P ctr32_incr (gcm_sm4_ctr_ctx c)
         in if ret \<noteq> 1 then (- 1, c, [], 0)
            else if gcm_tag c (gcm_mac_ctx c) \<noteq> pending (gcm_maclen c) (gcm_mac c)
              then (0, c, [], 0)
            else (1, c\<lparr>gcm_sm4_ctr_ctx := cc, gcm_maclen := 0\<rparr>, out, outlen)))"

subsection \<open>The modelled library\<close>

text \<open>Modelled from the spec: the functions of the loaded library that the streaming classes
  call, missing from the source.  The SM2 functions and the HMAC are those of \<open>lib\<close>.\<close>

definition modelled :: "primitives \<Rightarrow> gmssl \<Rightarrow> gmssl" where
  "modelled P lib = lib\<lparr>
     sm3_init := spec_sm3_init,
     sm3_update := spec_sm3_update,
     sm3_finish := spec_sm3_finish,
     sm4_set_encrypt_key := spec_sm4_set_encrypt_key P,
     sm4_set_decrypt_key := spec_sm4_set_decrypt_key P,
     sm4_encrypt := spec_sm4_encrypt P,
     sm4_cbc_encrypt_init := spec_sm4_cbc_encrypt_init P,
     sm4_cbc_decrypt_init := spec_sm4_cbc_decrypt_init P,
     sm4_cbc_encrypt_update := spec_sm4_cbc_encrypt_update P,
     sm4_cbc_decrypt_update := spec_sm4_cbc_decrypt_update P,
     sm4_cbc_encrypt_finish := spec_sm4_cbc_encrypt_finish P,
     sm4_cbc_decrypt_finish := spec_sm4_cbc_decrypt_finish P,
     sm4_ctr_encrypt_init := spec_sm4_ctr_encrypt_init P,
     sm4_ctr_encrypt_update := spec_sm4_ctr_encrypt_update P,
     sm4_ctr_encrypt_finish := spec_sm4_ctr_encrypt_finish P,
     zuc_encrypt_init := spec_zuc_encrypt_init P,
     zuc_encrypt_update := spec_zuc_encrypt_update P,
     zuc_encrypt_finish := spec_zuc_encrypt_finish P,
     sm4_gcm_encrypt_init := gcm_init P,
     sm4_gcm_decrypt_init := gcm_init P,
     sm4_gcm_encrypt_update := spec_sm4_gcm_encrypt_update P,
     sm4_gcm_decrypt_update := spec_sm4_gcm_decrypt_update P,
     sm4_gcm_encrypt_finish := spec_sm4_gcm_encrypt_finish P,
     sm4_gcm_decrypt_finish := spec_sm4_gcm_decrypt_finish P\<rparr>"

text \<open>Parameters for evaluating the methods: the S-box of the standard and, for ZUC, a
  counter in place of the word generator (no SM4 mode uses it).\<close>

definition example_primitives :: primitives where
  "example_primitives =
     \<lparr>sm4_sbox = standard_sbox,
      zuc_load = (\<lambda>key iv. \<lparr>zuc_LFSR = replicate 16 0, zuc_R1 = 0, zuc_R2 = 0\<rparr>),
      zuc_word = (\<lambda>st. (zuc_R1 st, st\<lparr>zuc_R1 := zuc_R1 st + 1\<rparr>))\<rparr>"

section \<open>Sequences of calls\<close>

text \<open>A caller feeds the chunks \<open>ds\<close> to \<^verbatim>\<open>update\<close> one after the other and collects what
  the calls return.  An exception ends the sequence.\<close>

fun feed :: "('s \<Rightarrow> bytes \<Rightarrow> (bytes, 's) called) \<Rightarrow> 's \<Rightarrow> bytes list \<Rightarrow> (error + bytes) \<times> 's" where
  "feed upd s [] = (Inr [], s)"
| "feed upd s (d # ds) =
     (case upd s d of
        (Inl e, s', _) \<Rightarrow> (Inl e, s')
      | (Inr out, s', _) \<Rightarrow>
          (case feed upd s' ds of
             (Inl e, s'') \<Rightarrow> (Inl e, s'')
           | (Inr outs, s'') \<Rightarrow> (Inr (out @ outs), s'')))"

text \<open>The cumulative output of a stream: what the \<^verbatim>\<open>update\<close> calls returned, followed by
  what \<^verbatim>\<open>finish\<close> returns.\<close>

definition run ::
  "('s \<Rightarrow> bytes \<Rightarrow> (bytes, 's) called) \<Rightarrow> ('s \<Rightarrow> (bytes, 's) called) \<Rightarrow> 's \<Rightarrow> bytes list
     \<Rightarrow> error + bytes" where
  "run upd fin s ds =
     (case feed upd s ds of
        (Inl e, s') \<Rightarrow> Inl e
      | (Inr outs, s') \<Rightarrow>
          (case fin s' of
             (Inl e, _) \<Rightarrow> Inl e
           | (Inr out, _) \<Rightarrow> Inr (outs @ out)))"

definition constructed_then :: "'s constructed \<Rightarrow> ('s \<Rightarrow> error + bytes) \<Rightarrow> error + bytes" where
  "constructed_then c f = (case fst c of Inl e \<Rightarrow> Inl e | Inr s \<Rightarrow> f s)"




definition Sm4Gcm_stream ::
  "gmssl \<Rightarrow> bytes \<Rightarrow> bytes \<Rightarrow> bytes \<Rightarrow> int \<Rightarrow> bool \<Rightarrow> bytes list \<Rightarrow> error + bytes" where
  "Sm4Gcm_stream lib key iv aad tlen encrypt ds =
     constructed_then (Sm4Gcm_init lib key iv aad tlen encrypt)
       (\<lambda>s. run (Sm4Gcm_update lib) (Sm4Gcm_finish lib) s ds)"



section \<open>Abstractions for the proofs\<close>

text \<open>The definitions of this section model no code.  They describe a stream by its
  state without the buffer layout (the pending bytes as a list), and a whole message by
  one function of its bytes.\<close>

subsection \<open>Streams in general\<close>

text \<open>\<open>absorb\<close> with the pending bytes as part of the state.\<close>

definition absorbing ::
  "nat \<Rightarrow> nat \<Rightarrow> ('s \<Rightarrow> bytes \<Rightarrow> 's \<times> bytes) \<Rightarrow> 's \<times> bytes \<Rightarrow> bytes \<Rightarrow> ('s \<times> bytes) \<times> bytes" where
  "absorbing n keep f a d =
     ((fst (absorb n keep f (fst a) (snd a @ d)), snd (snd (absorb n keep f (fst a) (snd a @ d)))),
      fst (snd (absorb n keep f (fst a) (snd a @ d))))"

text \<open>A step function run over a list of chunks.\<close>

fun feeds :: "('a \<Rightarrow> bytes \<Rightarrow> 'a \<times> bytes) \<Rightarrow> 'a \<Rightarrow> bytes list \<Rightarrow> 'a \<times> bytes" where
  "feeds g a [] = (a, [])"
| "feeds g a (d # ds) = (fst (feeds g (fst (g a d)) ds), snd (g a d) @ snd (feeds g (fst (g a d)) ds))"

text \<open>A block function that XORs a keystream, and its stream with the last partial
  block.\<close>

definition xor_block :: "('s \<Rightarrow> 's) \<Rightarrow> ('s \<Rightarrow> bytes) \<Rightarrow> 's \<Rightarrow> bytes \<Rightarrow> 's \<times> bytes" where
  "xor_block nxt ks s blk = (nxt s, xor_bytes blk (ks s))"

definition xor_whole :: "nat \<Rightarrow> ('s \<Rightarrow> 's) \<Rightarrow> ('s \<Rightarrow> bytes) \<Rightarrow> 's \<Rightarrow> bytes \<Rightarrow> bytes" where
  "xor_whole n nxt ks s m =
     fst (snd (absorb n 0 (xor_block nxt ks) s m))
     @ xor_bytes (snd (snd (absorb n 0 (xor_block nxt ks) s m)))
         (ks (fst (absorb n 0 (xor_block nxt ks) s m)))"

subsection \<open>SM3\<close>




subsection \<open>CTR, ZUC and CBC\<close>

text \<open>The invariant of a context, its state without the buffer layout, the output of
  \<^verbatim>\<open>finish\<close> and the output of a whole message.\<close>

definition Sm4Ctr_valid :: "Sm4Ctr \<Rightarrow> bool" where
  "Sm4Ctr_valid c \<longleftrightarrow> ctr_block_nbytes c < 16 \<and> length (ctr_block c) = 16"

definition ctr_abs :: "Sm4Ctr \<Rightarrow> bytes \<times> bytes" where
  "ctr_abs c = (ctr_ctr c, pending (ctr_block_nbytes c) (ctr_block c))"

definition ctr_flush :: "(bytes \<Rightarrow> bytes) \<Rightarrow> bytes \<times> bytes \<Rightarrow> bytes" where
  "ctr_flush E a = xor_bytes (snd a) (E (fst a))"

definition ctr_whole :: "(bytes \<Rightarrow> bytes) \<Rightarrow> (bytes \<Rightarrow> bytes) \<Rightarrow> bytes \<times> bytes \<Rightarrow> bytes \<Rightarrow> bytes" where
  "ctr_whole E incr a m =
     snd (absorbing 16 0 (ctr_encrypt_block E incr) a m)
     @ ctr_flush E (fst (absorbing 16 0 (ctr_encrypt_block E incr) a m))"











subsection \<open>GHASH and GCM\<close>

type_synonym ghash_abs = "(gf128_t \<times> bytes) \<times> nat"

definition Ghash_valid :: "Ghash \<Rightarrow> bool" where
  "Ghash_valid g \<longleftrightarrow> ghash_num g < 16 \<and> length (ghash_block g) = 16"

definition gh_abs :: "Ghash \<Rightarrow> ghash_abs" where
  "gh_abs g = ((ghash_X g, pending (ghash_num g) (ghash_block g)), ghash_clen g)"

definition gh_feed :: "gf128_t \<Rightarrow> ghash_abs \<Rightarrow> bytes \<Rightarrow> ghash_abs" where
  "gh_feed h a d = (fst (absorbing 16 0 (ghash_absorb_block h) (fst a) d), snd a + length d)"

definition gh_final :: "gf128_t \<Rightarrow> nat \<Rightarrow> ghash_abs \<Rightarrow> bytes" where
  "gh_final h alen a =
     gf128_to_bytes (fst (ghash_absorb_block h
       (fst (absorb 16 0 (ghash_absorb_block h) (fst (fst a)) (zero_pad (snd (fst a)))))
       (PUTU64 (push_bit 3 (of_nat alen)) @ PUTU64 (push_bit 3 (of_nat (snd a))))))"

type_synonym gcm_abs = "(bytes \<times> bytes) \<times> ghash_abs"

definition gcm_encrypt_machine ::
  "(bytes \<Rightarrow> bytes) \<Rightarrow> gf128_t \<Rightarrow> gcm_abs \<Rightarrow> bytes \<Rightarrow> gcm_abs \<times> bytes" where
  "gcm_encrypt_machine E h a d =
     ((fst (absorbing 16 0 (ctr_encrypt_block E ctr32_incr) (fst a) d),
       gh_feed h (snd a) (snd (absorbing 16 0 (ctr_encrypt_block E ctr32_incr) (fst a) d))),
      snd (absorbing 16 0 (ctr_encrypt_block E ctr32_incr) (fst a) d))"

definition gcm_decrypt_machine ::
  "(bytes \<Rightarrow> bytes) \<Rightarrow> gf128_t \<Rightarrow> nat \<Rightarrow> gcm_abs \<times> bytes \<Rightarrow> bytes \<Rightarrow> (gcm_abs \<times> bytes) \<times> bytes" where
  "gcm_decrypt_machine E h t a d =
     (((fst (absorbing 16 0 (ctr_encrypt_block E ctr32_incr) (fst (fst a))
               (take (length (snd a @ d) - t) (snd a @ d))),
        gh_feed h (snd (fst a)) (take (length (snd a @ d) - t) (snd a @ d))),
       drop (length (snd a @ d) - t) (snd a @ d)),
      snd (absorbing 16 0 (ctr_encrypt_block E ctr32_incr) (fst (fst a))
             (take (length (snd a @ d) - t) (snd a @ d))))"

definition gcm_abs_valid :: "gcm_abs \<Rightarrow> bool" where
  "gcm_abs_valid a \<longleftrightarrow> length (snd (fst a)) < 16 \<and> length (snd (fst (snd a))) < 16"

definition gcm_held_valid :: "nat \<Rightarrow> gcm_abs \<times> bytes \<Rightarrow> bool" where
  "gcm_held_valid t a \<longleftrightarrow> gcm_abs_valid (fst a) \<and> length (snd a) \<le> t"

definition Sm4Gcm_valid :: "Sm4Gcm \<Rightarrow> bool" where
  "Sm4Gcm_valid s \<longleftrightarrow>
     Sm4Ctr_valid (gcm_sm4_ctr_ctx (gcm_fields s)) \<and> Ghash_valid (gcm_mac_ctx (gcm_fields s))
     \<and> length (gcm_mac (gcm_fields s)) = 16 \<and> length (gcm_Y (gcm_fields s)) = 16
     \<and> gcm_maclen (gcm_fields s) \<le> gcm_taglen (gcm_fields s)
     \<and> gcm_taglen (gcm_fields s) \<le> 16"

text \<open>What stays the same during the life of a GCM object: the key schedule, the hash
  key, the length of the associated data, the encrypted first counter block, the tag
  length and the direction.\<close>

definition gcm_fixed :: "Sm4Gcm \<Rightarrow> Sm4 \<times> gf128_t \<times> nat \<times> bytes \<times> nat \<times> bool" where
  "gcm_fixed s =
     (ctr_sm4_key (gcm_sm4_ctr_ctx (gcm_fields s)), ghash_H (gcm_mac_ctx (gcm_fields s)),
      ghash_aadlen (gcm_mac_ctx (gcm_fields s)), gcm_Y (gcm_fields s),
      gcm_taglen (gcm_fields s), gcm_encrypt s)"

definition gcm_abs :: "Sm4Gcm \<Rightarrow> gcm_abs" where
  "gcm_abs s = (ctr_abs (gcm_sm4_ctr_ctx (gcm_fields s)), gh_abs (gcm_mac_ctx (gcm_fields s)))"

definition gcm_held :: "Sm4Gcm \<Rightarrow> bytes" where
  "gcm_held s = pending (gcm_maclen (gcm_fields s)) (gcm_mac (gcm_fields s))"

definition gcm_encrypt_flush ::
  "(bytes \<Rightarrow> bytes) \<Rightarrow> gf128_t \<Rightarrow> nat \<Rightarrow> bytes \<Rightarrow> nat \<Rightarrow> gcm_abs \<Rightarrow> bytes" where
  "gcm_encrypt_flush E h alen y t a =
     ctr_flush E (fst a)
     @ take t (xor_bytes (gh_final h alen (gh_feed h (snd a) (ctr_flush E (fst a)))) y)"

definition gcm_decrypt_flush ::
  "(bytes \<Rightarrow> bytes) \<Rightarrow> gf128_t \<Rightarrow> nat \<Rightarrow> bytes \<Rightarrow> nat \<Rightarrow> gcm_abs \<times> bytes \<Rightarrow> error + bytes" where
  "gcm_decrypt_flush E h alen y t a =
     (if length (snd a) \<noteq> t then Inl inner_error
      else if take t (xor_bytes (gh_final h alen (snd (fst a))) y) \<noteq> snd a then Inl inner_error
      else Inr (ctr_flush E (fst (fst a))))"

definition gcm_encrypt_whole ::
  "(bytes \<Rightarrow> bytes) \<Rightarrow> gf128_t \<Rightarrow> nat \<Rightarrow> bytes \<Rightarrow> nat \<Rightarrow> gcm_abs \<Rightarrow> bytes \<Rightarrow> bytes" where
  "gcm_encrypt_whole E h alen y t a m =
     snd (gcm_encrypt_machine E h a m)
     @ gcm_encrypt_flush E h alen y t (fst (gcm_encrypt_machine E h a m))"

definition gcm_decrypt_whole ::
  "(bytes \<Rightarrow> bytes) \<Rightarrow> gf128_t \<Rightarrow> nat \<Rightarrow> bytes \<Rightarrow> nat \<Rightarrow> gcm_abs \<times> bytes \<Rightarrow> bytes
     \<Rightarrow> error + bytes" where
  "gcm_decrypt_whole E h alen y t a c =
     (case gcm_decrypt_flush E h alen y t (fst (gcm_decrypt_machine E h t a c)) of
        Inl e \<Rightarrow> Inl e
      | Inr out \<Rightarrow> Inr (snd (gcm_decrypt_machine E h t a c) @ out))"

text \<open>The context that \<^verbatim>\<open>sm4_gcm_encrypt_init\<close> and \<^verbatim>\<open>sm4_gcm_decrypt_init\<close> leave.\<close>

definition gcm_start :: "primitives \<Rightarrow> bytes \<Rightarrow> bytes \<Rightarrow> bytes \<Rightarrow> nat \<Rightarrow> Sm4Gcm_fields" where
  "gcm_start P key iv aad t = snd (gcm_init P Sm4Gcm_new key iv aad t)"

text \<open>The output of the counter mode of GCM on a whole message: the ciphertext of a
  plaintext and the plaintext of a ciphertext.\<close>

definition gcm_crypt_whole :: "primitives \<Rightarrow> bytes \<Rightarrow> bytes \<Rightarrow> bytes \<Rightarrow> nat \<Rightarrow> bytes \<Rightarrow> bytes" where
  "gcm_crypt_whole P key iv aad t m =
     (let S = snd (gcm_init P Sm4Gcm_new key iv aad t)
      in ctr_whole (spec_sm4_encrypt P (ctr_sm4_key (gcm_sm4_ctr_ctx S))) ctr32_incr
           (ctr_ctr (gcm_sm4_ctr_ctx S), []) m)"

text \<open>The tag that the library computes over the ciphertext \<open>body\<close>: \<open>gcm_tag\<close> on the hash
  state after \<open>body\<close>.\<close>

definition gcm_expected_tag :: "primitives \<Rightarrow> bytes \<Rightarrow> bytes \<Rightarrow> bytes \<Rightarrow> nat \<Rightarrow> bytes \<Rightarrow> bytes" where
  "gcm_expected_tag P key iv aad t body =
     (let S = snd (gcm_init P Sm4Gcm_new key iv aad t)
      in gcm_tag S (ghash_update (gcm_mac_ctx S) body))"

subsection \<open>Inputs for evaluation\<close>

text \<open>A key, a 12-byte IV for GCM and a 16-byte IV for the other modes, with the round
  keys of the key and the GCM context they give for a one-byte tag and no associated
  data; the one padded block of the message \<^verbatim>\<open>abc\<close> for SM3.\<close>

definition key0 :: bytes where "key0 = [0x0a, 0, 0, 0, 0, 0, 0, 0, 0, 0, 0, 0, 0, 0, 0, 0]"

definition iv0 :: bytes where "iv0 = [0, 0, 0, 0, 0, 0, 0, 0, 0, 0, 0, 0]"


definition rk0 :: "32 word list" where
  "rk0 = [0x4f603b23, 0xe7249143, 0x04c9a052, 0x0a1ed52a, 0xf7a2db09, 0x481bb9c3,
     0x7b96eb8e, 0x93080242, 0xd464ef9a, 0x5da437d0, 0xdf221fbd, 0xa8109eb4,
     0x0c532706, 0xc3ddfaea, 0x4c3c510a, 0xcf0f2cd6, 0xc85b092a, 0x9b8f46bc,
     0x460c6d51, 0x660d6169, 0x78a09021, 0x206e4161, 0x1362ecbf, 0x1b610880,
     0x476cc822, 0xed76cd44, 0x91c9e029, 0xa77c942e, 0xc2735277, 0x900a0f68,
     0xe12330de, 0xe831a357]"

definition gcm_state0 :: Sm4Gcm_fields where
  "gcm_state0 =
     \<lparr>gcm_sm4_ctr_ctx =
        \<lparr>ctr_sm4_key = \<lparr>sm4_rk = rk0\<rparr>,
         ctr_ctr = [0, 0, 0, 0, 0, 0, 0, 0, 0, 0, 0, 0, 0, 0, 0, 2],
         ctr_block = replicate 16 0, ctr_block_nbytes = 0\<rparr>,
      gcm_mac_ctx =
        \<lparr>ghash_H = \<lparr>gf_hi = 0x0784fbab1e744995, gf_lo = 0xc37b4f225ed8c989\<rparr>,
         ghash_X = \<lparr>gf_hi = 0, gf_lo = 0\<rparr>, ghash_aadlen = 0, ghash_clen = 0,
         ghash_block = replicate 16 0, ghash_num = 0\<rparr>,
      gcm_Y = [0x7c, 0xf3, 0xa6, 0x62, 0x43, 0x92, 0x1b, 0xbf, 0x9f, 0x71, 0xdd, 0x63, 0xb4, 0xe0, 0x92, 0xce],
      gcm_taglen = 1, gcm_mac = replicate 16 0, gcm_maclen = 0\<rparr>"


text \<open>A marker for the simplifier: a word under \<open>nrm\<close> is reduced modulo \<open>2^32\<close>.\<close>

definition nrm :: "32 word \<Rightarrow> 32 word" where "nrm w = w"

section \<open>Properties of the binding\<close>

lemmas size_defs =
  SM3_DIGEST_SIZE_def SM3_STATE_WORDS_def SM3_BLOCK_SIZE_def SM3_HMAC_SIZE_def
  SM3_HMAC_MIN_KEY_SIZE_def SM3_HMAC_MAX_KEY_SIZE_def SM4_KEY_SIZE_def SM4_BLOCK_SIZE_def
  SM4_NUM_ROUNDS_def SM4_CTR_IV_SIZE_def ZUC_KEY_SIZE_def ZUC_IV_SIZE_def
  SM4_GCM_MIN_IV_SIZE_def SM4_GCM_MAX_IV_SIZE_def SM4_GCM_DEFAULT_IV_SIZE_def
  SM4_GCM_DEFAULT_TAG_SIZE_def SM4_GCM_MAX_TAG_SIZE_def SM2_MAX_SIGNATURE_SIZE_def
  SM2_MIN_PLAINTEXT_SIZE_def SM2_MAX_PLAINTEXT_SIZE_def SM2_MIN_CIPHERTEXT_SIZE_def
  SM2_MAX_CIPHERTEXT_SIZE_def


subsection \<open>Argument checks of the constructors\<close>

text \<open>
  Claim C7.  The constructors check the lengths of their arguments before they call the
  library, and raise \<^verbatim>\<open>ValueError\<close>: \<^verbatim>\<open>Sm3Hmac\<close> for a key shorter than 16 or
  longer than 64 bytes (so for 15 and 65), while a key of 16 to 64 bytes (so 16 and 64) is
  accepted and handed to \<^verbatim>\<open>sm3_hmac_init\<close>; \<^verbatim>\<open>Sm4\<close> for a key that is not 16 bytes
  long (so for 15 and 17); \<^verbatim>\<open>Sm4Gcm\<close> for a tag length below 1 or above 16 (so for 0
  and 17), whatever the other arguments are.  In each failing case the list of native
  calls is empty.
\<close>

theorem construction_bounds:
  "(length key < 16 \<or> length key > 64 \<longrightarrow>
      Sm3Hmac_init lib key = (Inl (ValueError ''Invalid SM3 HMAC key length''), []))
   \<and> (16 \<le> length key \<and> length key \<le> 64 \<longrightarrow>
      Sm3Hmac_init lib key = (Inr (sm3_hmac_init lib Sm3Hmac_new key), [''sm3_hmac_init'']))
   \<and> (length key \<noteq> 16 \<longrightarrow>
      Sm4_init lib key encrypt = (Inl (ValueError ''Invalid key length''), []))
   \<and> (taglen < 1 \<or> taglen > 16 \<longrightarrow>
      (\<exists>msg. Sm4Gcm_init lib key iv aad taglen encrypt = (Inl (ValueError msg), [])))
   \<and> (length key = 16 \<and> 1 \<le> length iv \<and> length iv \<le> 64 \<and> (taglen < 1 \<or> taglen > 16) \<longrightarrow>
      Sm4Gcm_init lib key iv aad taglen encrypt = (Inl (ValueError ''Invalid Tag length''), []))"
  by (auto simp: Sm3Hmac_init_def Sm4_init_def Sm4Gcm_init_def size_defs)

theorem construction_bounds_witness:
  "Sm3Hmac_init refusing (replicate 15 0) = (Inl (ValueError ''Invalid SM3 HMAC key length''), [])
   \<and> Sm3Hmac_init refusing (replicate 65 0) = (Inl (ValueError ''Invalid SM3 HMAC key length''), [])
   \<and> Sm3Hmac_init refusing (replicate 16 0) = (Inr Sm3Hmac_new, [''sm3_hmac_init''])
   \<and> Sm3Hmac_init refusing (replicate 64 0) = (Inr Sm3Hmac_new, [''sm3_hmac_init''])
   \<and> Sm4_init refusing (replicate 15 0) True = (Inl (ValueError ''Invalid key length''), [])
   \<and> Sm4_init refusing (replicate 17 0) False = (Inl (ValueError ''Invalid key length''), [])
   \<and> Sm4Gcm_init refusing (replicate 16 0) (replicate 12 0) [] 0 True
        = (Inl (ValueError ''Invalid Tag length''), [])
   \<and> Sm4Gcm_init refusing (replicate 16 0) (replicate 12 0) [] 17 False
        = (Inl (ValueError ''Invalid Tag length''), [])"
  using construction_bounds [of "replicate 15 0" refusing True 0 "[]" "[]"]
    construction_bounds [of "replicate 65 0" refusing True 0 "[]" "[]"]
    construction_bounds [of "replicate 16 0" refusing True 0 "replicate 12 0" "[]"]
    construction_bounds [of "replicate 64 0" refusing True 0 "[]" "[]"]
    construction_bounds [of "replicate 17 0" refusing False 0 "[]" "[]"]
    construction_bounds [of "replicate 16 0" refusing False 17 "replicate 12 0" "[]"]
  by (simp add: refusing_def)

subsection \<open>SM2 verification\<close>

text \<open>
  Claim C10.  For every digest argument whose length is not 32, \<^verbatim>\<open>Sm2Key.verify\<close>
  raises \<^verbatim>\<open>ValueError('Invalid SM3 digest size')\<close>; it has called no native function
  and the key is as it was.  So the outcome is never the boolean \<^verbatim>\<open>False\<close>.
\<close>

theorem verify_rejects_digest_size:
  assumes "length dgst \<noteq> 32"
  shows "Sm2Key_verify lib self dgst sig =
           (Inl (ValueError ''Invalid SM3 digest size''), self, [])
       \<and> fst (Sm2Key_verify lib self dgst sig) \<noteq> Inr False"
  using assms by (simp add: Sm2Key_verify_def SM3_DIGEST_SIZE_def)

theorem verify_rejects_digest_size_witness:
  "length (replicate 31 (0::byte)) \<noteq> 32
   \<and> Sm2Key_verify (refusing\<lparr>sm2_verify := \<lambda>k d s. (0, k)\<rparr>) Sm2Key_new (replicate 31 0) []
       = (Inl (ValueError ''Invalid SM3 digest size''), Sm2Key_new, [])"
  using verify_rejects_digest_size
    [of "replicate 31 0" "refusing\<lparr>sm2_verify := \<lambda>k d s. (0, k)\<rparr>" Sm2Key_new "[]"]
  by simp

subsection \<open>The stream of a PEM file when the library fails\<close>

text \<open>
  Claim C9 says that every PEM import or export closes the stream it opened, also when it
  fails.  The methods call \<^verbatim>\<open>libc.fclose\<close> only after the check of the library's
  return code, so the \<^verbatim>\<open>raise\<close> leaves the method first.  Evaluated with a file that
  opens and a library that returns \<open>-1\<close> (a wrong password, say): the import and the
  export raise \<^verbatim>\<open>InnerError\<close>, \<^verbatim>\<open>fclose\<close> is not among the calls, and the stream
  \<open>1\<close> that \<^verbatim>\<open>fopen\<close> returned is still open.
\<close>

theorem pem_failure_leaves_stream_open:
  "Sm2Key_import_encrypted_private_key_info_pem refusing always_opens Sm2Key_new
       ''sm2.pem'' ''password'' []
     = (Inl inner_error, Sm2Key_new, [1], [''fopen'', ''sm2_private_key_info_decrypt_from_pem''])
   \<and> Sm2Key_export_encrypted_private_key_info_pem refusing always_opens Sm2Key_new
       ''sm2.pem'' ''password'' []
     = (Inl inner_error, Sm2Key_new, [1], [''fopen'', ''sm2_private_key_info_encrypt_to_pem''])"
  by (simp add: Sm2Key_import_encrypted_private_key_info_pem_def
      Sm2Key_export_encrypted_private_key_info_pem_def libc_fopen_def always_opens_def
      refusing_def)

text \<open>The same for every library and file system, and for the four PEM methods: a call
  that raises leaves the stream \<^verbatim>\<open>fopen\<close> returned among the open ones.\<close>

lemma pem_raise_keeps_stream:
  assumes "fopen c path mode streams = Some fp"
  shows "fst (sm2_private_key_info_encrypt_to_pem lib self passwd (Some fp)) \<noteq> 1 \<Longrightarrow>
           mode = ''wb'' \<Longrightarrow>
           fp \<in> set (fst (snd (snd
             (Sm2Key_export_encrypted_private_key_info_pem lib c self path passwd streams))))"
    and "fst (sm2_private_key_info_decrypt_from_pem lib self passwd (Some fp)) \<noteq> 1 \<Longrightarrow>
           mode = ''rb'' \<Longrightarrow>
           fp \<in> set (fst (snd (snd
             (Sm2Key_import_encrypted_private_key_info_pem lib c self path passwd streams))))"
    and "fst (sm2_public_key_info_to_pem lib self (Some fp)) \<noteq> 1 \<Longrightarrow>
           mode = ''wb'' \<Longrightarrow>
           fp \<in> set (fst (snd (snd
             (Sm2Key_export_public_key_info_pem lib c self path streams))))"
    and "fst (sm2_public_key_info_from_pem lib self (Some fp)) \<noteq> 1 \<Longrightarrow>
           mode = ''rb'' \<Longrightarrow>
           fp \<in> set (fst (snd (snd
             (Sm2Key_import_public_key_info_pem lib c self path streams))))"
  using assms
  by (auto simp: Sm2Key_export_encrypted_private_key_info_pem_def
      Sm2Key_import_encrypted_private_key_info_pem_def
      Sm2Key_export_public_key_info_pem_def Sm2Key_import_public_key_info_pem_def
      libc_fopen_def split: prod.splits)

subsection \<open>SM2 encryption has no length check\<close>

text \<open>
  Claim C6 says that \<^verbatim>\<open>Sm2Key.encrypt\<close> rejects a plaintext of length 0 or 256 with
  an input-validation error.  The method has no check of its own (the constant
  \<^verbatim>\<open>SM2_MIN_PLAINTEXT_SIZE\<close> is never used, and \<^verbatim>\<open>SM2_MAX_PLAINTEXT_SIZE\<close> only as
  the size of the buffer of \<^verbatim>\<open>decrypt\<close>): it always calls \<^verbatim>\<open>sm2_encrypt\<close> and never raises \<^verbatim>\<open>ValueError\<close>.  With a library
  that refuses the empty and the 256-byte plaintext, the exception is \<^verbatim>\<open>InnerError\<close>.
\<close>

theorem sm2_encrypt_has_no_length_check:
  "snd (snd (Sm2Key_encrypt lib self data)) = [''sm2_encrypt'']
   \<and> fst (Sm2Key_encrypt lib self data) \<noteq> Inl (ValueError msg)
   \<and> Sm2Key_encrypt refusing Sm2Key_new [] = (Inl inner_error, Sm2Key_new, [''sm2_encrypt''])
   \<and> Sm2Key_encrypt refusing Sm2Key_new (replicate 256 0)
       = (Inl inner_error, Sm2Key_new, [''sm2_encrypt''])"
  by (auto simp: Sm2Key_encrypt_def sliced_def inner_error_def refusing_def split: prod.splits)

text \<open>What the method does guarantee: a ciphertext it returns is a slice of its buffer of
  \<^verbatim>\<open>SM2_MAX_CIPHERTEXT_SIZE\<close> bytes, so it has at most 366 bytes.\<close>

lemma sm2_encrypt_length_le:
  "fst (Sm2Key_encrypt lib self data) = Inr ct \<Longrightarrow> length ct \<le> 366"
  by (auto simp: Sm2Key_encrypt_def sliced_def returned_def store_def create_string_buffer_def
      SM2_MAX_CIPHERTEXT_SIZE_def split: prod.splits if_splits)

section \<open>Properties of the modelled library\<close>

subsection \<open>Buffers\<close>

lemma length_store [simp]: "length (store buf out) = length buf"
  by (simp add: store_def)

lemma store_prefix: "length out \<le> length buf \<Longrightarrow> take (length out) (store buf out) = out"
  by (simp add: store_def)

lemma pending_store [simp]: "length out \<le> length buf \<Longrightarrow> pending (length out) (store buf out) = out"
  by (simp add: pending_def store_prefix)

lemma returned_all: "length out \<le> n \<Longrightarrow> returned n out (length out) = out"
  by (simp add: returned_def store_def create_string_buffer_def)


lemma length_pending: "k \<le> length blk \<Longrightarrow> length (pending k blk) = k"
  by (simp add: pending_def)

subsection \<open>Absorbing a stream in blocks\<close>

lemma absorb_short:
  "n = 0 \<or> length buf < n + keep \<Longrightarrow> absorb n keep f s buf = (s, [], buf)"
  by (subst absorb.simps) simp

lemma absorb_block:
  "0 < n \<Longrightarrow> n + keep \<le> length buf \<Longrightarrow>
     absorb n keep f s buf =
       (fst (absorb n keep f (fst (f s (take n buf))) (drop n buf)),
        snd (f s (take n buf)) @ fst (snd (absorb n keep f (fst (f s (take n buf))) (drop n buf))),
        snd (snd (absorb n keep f (fst (f s (take n buf))) (drop n buf))))"
  by (subst absorb.simps) (simp add: Let_def)

lemma absorb_rest_length:
  "0 < n \<Longrightarrow> length (snd (snd (absorb n keep f s buf))) < n + keep"
proof (induction n keep f s buf rule: absorb.induct)
  case (1 n keep f s buf)
  show ?case
  proof (cases "length buf < n + keep")
    case True
    then show ?thesis by (simp add: absorb_short)
  next
    case False
    with 1 show ?thesis by (simp add: absorb_block)
  qed
qed

lemma absorb_append:
  "absorb n keep f s (a @ b) =
     (fst (absorb n keep f (fst (absorb n keep f s a)) (snd (snd (absorb n keep f s a)) @ b)),
      fst (snd (absorb n keep f s a))
        @ fst (snd (absorb n keep f (fst (absorb n keep f s a)) (snd (snd (absorb n keep f s a)) @ b))),
      snd (snd (absorb n keep f (fst (absorb n keep f s a)) (snd (snd (absorb n keep f s a)) @ b))))"
proof (induction n keep f s a rule: absorb.induct)
  case (1 n keep f s a)
  show ?case
  proof (cases "n = 0 \<or> length a < n + keep")
    case True
    then show ?thesis by (simp add: absorb_short)
  next
    case False
    then have n: "0 < n" and len: "n + keep \<le> length a" by auto
    have len': "n + keep \<le> length (a @ b)" using len by simp
    have tk: "take n (a @ b) = take n a" and dr: "drop n (a @ b) = drop n a @ b"
      using len by simp_all
    note IH = 1 [OF False refl]
    show ?thesis
      unfolding absorb_block [OF n len'] absorb_block [OF n len] tk dr
      by (simp add: IH)
  qed
qed

lemma absorb_length_le:
  assumes "\<And>s b. length b = n \<Longrightarrow> length (snd (f s b)) \<le> n"
  shows "length (fst (snd (absorb n keep f s buf))) + length (snd (snd (absorb n keep f s buf)))
           \<le> length buf"
  using assms
proof (induction n keep f s buf rule: absorb.induct)
  case (1 n keep f s buf)
  show ?case
  proof (cases "n = 0 \<or> length buf < n + keep")
    case True
    then show ?thesis by (simp add: absorb_short)
  next
    case False
    then have n: "0 < n" and len: "n + keep \<le> length buf" by auto
    have "length (snd (f s (take n buf))) \<le> n"
      using "1.prems" [of "take n buf" s] len by simp
    moreover note "1.IH" [OF False refl "1.prems"]
    ultimately show ?thesis
      unfolding absorb_block [OF n len] using len by simp
  qed
qed

lemma absorbing_append:
  "absorbing n keep f a (d1 @ d2) =
     (fst (absorbing n keep f (fst (absorbing n keep f a d1)) d2),
      snd (absorbing n keep f a d1) @ snd (absorbing n keep f (fst (absorbing n keep f a d1)) d2))"
  unfolding absorbing_def
  by (simp add: absorb_append [of n keep f "fst a" "snd a @ d1" d2, simplified])

lemma absorbing_Nil:
  "n = 0 \<or> length (snd a) < n + keep \<Longrightarrow> absorbing n keep f a [] = (a, [])"
  by (simp add: absorbing_def absorb_short)

lemma absorbing_rest_length:
  "0 < n \<Longrightarrow> length (snd (fst (absorbing n keep f a d))) < n + keep"
  by (simp add: absorbing_def absorb_rest_length)


subsection \<open>Streams through the binding\<close>

lemma feed_simulates:
  fixes upd :: "'s \<Rightarrow> bytes \<Rightarrow> (bytes, 's) called"
  assumes step: "\<And>s d. I s \<Longrightarrow>
      fst (upd s d) = Inr (snd (g (\<alpha> s) d)) \<and> I (fst (snd (upd s d)))
      \<and> \<alpha> (fst (snd (upd s d))) = fst (g (\<alpha> s) d)"
    and "I s"
  shows "fst (feed upd s ds) = Inr (snd (feeds g (\<alpha> s) ds))
       \<and> I (snd (feed upd s ds))
       \<and> \<alpha> (snd (feed upd s ds)) = fst (feeds g (\<alpha> s) ds)"
  using \<open>I s\<close>
proof (induction ds arbitrary: s)
  case Nil
  then show ?case by simp
next
  case (Cons d ds)
  obtain r s' cs where u: "upd s d = (r, s', cs)" by (cases "upd s d") auto
  from step [OF Cons.prems, of d] u
  have r: "r = Inr (snd (g (\<alpha> s) d))" and I': "I s'" and a': "\<alpha> s' = fst (g (\<alpha> s) d)"
    by simp_all
  obtain r2 s2 where f: "feed upd s' ds = (r2, s2)" by (cases "feed upd s' ds") auto
  from Cons.IH [OF I'] f
  have "r2 = Inr (snd (feeds g (\<alpha> s') ds))" and "I s2" and "\<alpha> s2 = fst (feeds g (\<alpha> s') ds)"
    by simp_all
  then show ?case by (simp add: u r f a')
qed

lemma run_simulates:
  fixes upd :: "'s \<Rightarrow> bytes \<Rightarrow> (bytes, 's) called" and fin :: "'s \<Rightarrow> (bytes, 's) called"
  assumes step: "\<And>s d. I s \<Longrightarrow>
      fst (upd s d) = Inr (snd (g (\<alpha> s) d)) \<and> I (fst (snd (upd s d)))
      \<and> \<alpha> (fst (snd (upd s d))) = fst (g (\<alpha> s) d)"
    and fin: "\<And>s. I s \<Longrightarrow> fst (fin s) = F (\<alpha> s)"
    and "I s"
  shows "run upd fin s ds =
           (case F (fst (feeds g (\<alpha> s) ds)) of
              Inl e \<Rightarrow> Inl e
            | Inr out \<Rightarrow> Inr (snd (feeds g (\<alpha> s) ds) @ out))"
proof -
  obtain r s' where f: "feed upd s ds = (r, s')" by (cases "feed upd s ds") auto
  from feed_simulates [of I upd g \<alpha>, OF step \<open>I s\<close>, of ds] f
  have r: "r = Inr (snd (feeds g (\<alpha> s) ds))" and I': "I s'"
    and a': "\<alpha> s' = fst (feeds g (\<alpha> s) ds)"
    by simp_all
  obtain q t where q: "fin s' = (q, t)" by (cases "fin s'") auto
  from fin [OF I'] q a' have "q = F (fst (feeds g (\<alpha> s) ds))" by simp
  then show ?thesis
    by (simp add: run_def f r q split: sum.splits)
qed

subsection \<open>The modelled library behind the binding\<close>

lemma modelled_simps [simp]:
  "sm3_init (modelled P lib) = spec_sm3_init"
  "sm3_update (modelled P lib) = spec_sm3_update"
  "sm3_finish (modelled P lib) = spec_sm3_finish"
  "sm4_cbc_encrypt_init (modelled P lib) = spec_sm4_cbc_encrypt_init P"
  "sm4_cbc_decrypt_init (modelled P lib) = spec_sm4_cbc_decrypt_init P"
  "sm4_cbc_encrypt_update (modelled P lib) = spec_sm4_cbc_encrypt_update P"
  "sm4_cbc_decrypt_update (modelled P lib) = spec_sm4_cbc_decrypt_update P"
  "sm4_cbc_encrypt_finish (modelled P lib) = spec_sm4_cbc_encrypt_finish P"
  "sm4_cbc_decrypt_finish (modelled P lib) = spec_sm4_cbc_decrypt_finish P"
  "sm4_ctr_encrypt_init (modelled P lib) = spec_sm4_ctr_encrypt_init P"
  "sm4_ctr_encrypt_update (modelled P lib) = spec_sm4_ctr_encrypt_update P"
  "sm4_ctr_encrypt_finish (modelled P lib) = spec_sm4_ctr_encrypt_finish P"
  "zuc_encrypt_init (modelled P lib) = spec_zuc_encrypt_init P"
  "zuc_encrypt_update (modelled P lib) = spec_zuc_encrypt_update P"
  "zuc_encrypt_finish (modelled P lib) = spec_zuc_encrypt_finish P"
  "sm4_gcm_encrypt_init (modelled P lib) = gcm_init P"
  "sm4_gcm_decrypt_init (modelled P lib) = gcm_init P"
  "sm4_gcm_encrypt_update (modelled P lib) = spec_sm4_gcm_encrypt_update P"
  "sm4_gcm_decrypt_update (modelled P lib) = spec_sm4_gcm_decrypt_update P"
  "sm4_gcm_encrypt_finish (modelled P lib) = spec_sm4_gcm_encrypt_finish P"
  "sm4_gcm_decrypt_finish (modelled P lib) = spec_sm4_gcm_decrypt_finish P"
  by (simp_all add: modelled_def)

lemma length_xor_bytes [simp]: "length (xor_bytes a b) = min (length a) (length b)"
  by (simp add: xor_bytes_def)

subsection \<open>CTR behind the binding\<close>

lemma ctr_update_valid:
  fixes P :: primitives and incr :: "bytes \<Rightarrow> bytes" and d :: bytes
  assumes "Sm4Ctr_valid c"
  defines "G \<equiv> absorbing 16 0 (ctr_encrypt_block (spec_sm4_encrypt P (ctr_sm4_key c)) incr)
                 (ctr_abs c) d"
  shows "ctr_update P incr c d =
           (1, c\<lparr>ctr_ctr := fst (fst G), ctr_block := store (ctr_block c) (snd (fst G)),
                  ctr_block_nbytes := length (snd (fst G))\<rparr>, snd G, length (snd G))"
    and "length (snd G) \<le> ctr_block_nbytes c + length d"
    and "length (snd (fst G)) < 16"
proof -
  show "ctr_update P incr c d =
           (1, c\<lparr>ctr_ctr := fst (fst G), ctr_block := store (ctr_block c) (snd (fst G)),
                  ctr_block_nbytes := length (snd (fst G))\<rparr>, snd G, length (snd G))"
    using assms(1)
    by (simp add: ctr_update_def G_def absorbing_def ctr_abs_def Sm4Ctr_valid_def
        SM4_BLOCK_SIZE_def split: prod.splits)
  have "length (snd G) + length (snd (fst G))
          \<le> length (pending (ctr_block_nbytes c) (ctr_block c) @ d)"
    unfolding G_def absorbing_def ctr_abs_def fst_conv snd_conv
    by (rule absorb_length_le) (simp add: ctr_encrypt_block_def)
  then show "length (snd G) \<le> ctr_block_nbytes c + length d"
    using assms(1) by (simp add: Sm4Ctr_valid_def pending_def)
  show "length (snd (fst G)) < 16"
    using absorbing_rest_length [of 16 0] by (simp add: G_def)
qed

lemma ctr_update_step:
  assumes "Sm4Ctr_valid c"
  shows "Sm4Ctr_valid (fst (snd (ctr_update P incr c d)))"
    and "ctr_sm4_key (fst (snd (ctr_update P incr c d))) = ctr_sm4_key c"
    and "ctr_abs (fst (snd (ctr_update P incr c d))) =
           fst (absorbing 16 0 (ctr_encrypt_block (spec_sm4_encrypt P (ctr_sm4_key c)) incr)
                  (ctr_abs c) d)"
  using assms ctr_update_valid(3) [OF assms, of P incr d]
  by (simp_all add: ctr_update_valid(1) [OF assms] Sm4Ctr_valid_def ctr_abs_def)

lemma ctr_finish_valid:
  assumes "Sm4Ctr_valid c"
  shows "fst (ctr_finish P incr c) = 1"
    and "fst (snd (snd (ctr_finish P incr c))) = ctr_flush (spec_sm4_encrypt P (ctr_sm4_key c)) (ctr_abs c)"
    and "snd (snd (snd (ctr_finish P incr c))) = length (fst (snd (snd (ctr_finish P incr c))))"
    and "length (fst (snd (snd (ctr_finish P incr c)))) < 16"
  using assms
  by (simp_all add: ctr_finish_def Sm4Ctr_valid_def ctr_flush_def ctr_abs_def
      ctr_encrypt_block_def SM4_BLOCK_SIZE_def pending_def Let_def min_less_iff_disj)




subsection \<open>ZUC behind the binding\<close>

lemma length_PUTU32 [simp]: "length (PUTU32 w) = 4"
  by (simp add: PUTU32_def)





subsection \<open>CBC behind the binding\<close>

lemma length_sm4_step [simp]: "length (sm4_step t k X) = length X"
  by (auto simp: sm4_step_def split: list.splits)

lemma length_fold_sm4_step [simp]: "length (fold (sm4_step t) rks X) = length X"
  by (induction rks arbitrary: X) simp_all

lemma length_concat_PUTU32 [simp]: "length (concat (map PUTU32 ws)) = 4 * length ws"
  by (induction ws) simp_all

lemma length_sm4_crypt [simp]: "length (sm4_crypt sbox rks blk) = 16"
  by (simp add: sm4_crypt_def words_of_def)

lemma length_spec_sm4_encrypt [simp]: "length (spec_sm4_encrypt P k blk) = 16"
  by (simp add: spec_sm4_encrypt_def)






subsection \<open>Streams that XOR a keystream\<close>

lemma xor_bytes_cancel: "length a \<le> length k \<Longrightarrow> xor_bytes (xor_bytes a k) k = a"
proof (induction a arbitrary: k)
  case Nil
  then show ?case by (simp add: xor_bytes_def)
next
  case (Cons x a)
  then obtain y k' where k: "k = y # k'" by (cases k) auto
  with Cons show ?case by (simp add: xor_bytes_def xor.assoc)
qed

lemma xor_whole_short:
  "length m < n \<Longrightarrow> xor_whole n nxt ks s m = xor_bytes m (ks s)"
  by (simp add: xor_whole_def absorb_short)

lemma xor_whole_long:
  "0 < n \<Longrightarrow> n \<le> length m \<Longrightarrow>
     xor_whole n nxt ks s m = xor_bytes (take n m) (ks s) @ xor_whole n nxt ks (nxt s) (drop n m)"
  by (simp add: xor_whole_def absorb_block [of n 0] xor_block_def)

lemma xor_whole_involution:
  assumes ks: "\<And>s. length (ks s) = n" and n: "0 < n"
  shows "xor_whole n nxt ks s (xor_whole n nxt ks s m) = m"
proof (induction "length m" arbitrary: m s rule: less_induct)
  case less
  show ?case
  proof (cases "length m < n")
    case True
    then have "length (xor_bytes m (ks s)) < n" by simp
    then show ?thesis
      using True by (simp add: xor_whole_short xor_bytes_cancel ks)
  next
    case False
    then have len: "n \<le> length m" by simp
    let ?h = "xor_bytes (take n m) (ks s)"
    let ?t = "xor_whole n nxt ks (nxt s) (drop n m)"
    have lh: "length ?h = n" using len by (simp add: ks)
    have w: "xor_whole n nxt ks s m = ?h @ ?t" by (rule xor_whole_long [OF n len])
    have "n \<le> length (?h @ ?t)" unfolding length_append lh by simp
    then have "xor_whole n nxt ks s (?h @ ?t)
            = xor_bytes (take n (?h @ ?t)) (ks s) @ xor_whole n nxt ks (nxt s) (drop n (?h @ ?t))"
      by (rule xor_whole_long [OF n])
    also have "\<dots> = xor_bytes ?h (ks s) @ xor_whole n nxt ks (nxt s) ?t"
      using lh by (simp del: length_xor_bytes)
    also have "xor_bytes ?h (ks s) = take n m"
      using len by (simp add: xor_bytes_cancel ks)
    also have "xor_whole n nxt ks (nxt s) ?t = drop n m"
      using n len by (intro less) simp
    finally show ?thesis by (simp add: w)
  qed
qed

lemma ctr_whole_xor: "ctr_whole E incr (c, []) m = xor_whole 16 incr E c m"
proof -
  have "ctr_encrypt_block E incr = xor_block incr E"
    by (simp add: fun_eq_iff ctr_encrypt_block_def xor_block_def)
  then show ?thesis
    by (simp add: ctr_whole_def xor_whole_def absorbing_def ctr_flush_def)
qed


lemma ctr_whole_involution:
  "(\<And>x. length (E x) = 16) \<Longrightarrow> ctr_whole E incr (c, []) (ctr_whole E incr (c, []) m) = m"
  by (simp add: ctr_whole_xor xor_whole_involution)


subsection \<open>SM4 decryption inverts encryption\<close>









subsection \<open>CBC: padding and round trip\<close>










subsection \<open>What the constructors give\<close>

lemma Sm4Ctr_init_modelled:
  assumes "length key = 16" "length iv = 16"
  shows "\<exists>c. fst (Sm4Ctr_init (modelled P lib) key iv) = Inr c \<and> Sm4Ctr_valid c
           \<and> ctr_abs c = (iv, [])"
  using assms
  by (simp add: Sm4Ctr_init_def spec_sm4_ctr_encrypt_init_def SM4_KEY_SIZE_def
      SM4_BLOCK_SIZE_def Sm4Ctr_valid_def ctr_abs_def pending_def)



subsection \<open>Chunks of a stream\<close>

lemma feeds_concat:
  assumes nil: "\<And>a. J a \<Longrightarrow> g a [] = (a, [])"
    and app: "\<And>a d1 d2. J a \<Longrightarrow>
        g a (d1 @ d2) = (fst (g (fst (g a d1)) d2), snd (g a d1) @ snd (g (fst (g a d1)) d2))"
    and pres: "\<And>a d. J a \<Longrightarrow> J (fst (g a d))"
    and "J a"
  shows "feeds g a ds = g a (concat ds)"
  using \<open>J a\<close>
proof (induction ds arbitrary: a)
  case Nil
  then show ?case by (simp add: nil)
next
  case (Cons d ds)
  from Cons.IH [OF pres [OF Cons.prems, of d]] show ?case
    by (simp add: app [OF Cons.prems])
qed

subsection \<open>GHASH as a stream\<close>

lemma gh_feed_append: "gh_feed h (gh_feed h a d1) d2 = gh_feed h a (d1 @ d2)"
  by (simp add: gh_feed_def absorbing_append)

lemma gh_feed_Nil: "length (snd (fst a)) < 16 \<Longrightarrow> gh_feed h a [] = a"
  by (simp add: gh_feed_def absorbing_Nil)

lemma gh_feed_pending: "length (snd (fst (gh_feed h a d))) < 16"
  using absorbing_rest_length [of 16 0] by (simp add: gh_feed_def)

lemma ghash_update_valid:
  assumes "Ghash_valid g"
  shows "Ghash_valid (ghash_update g d)"
    and "gh_abs (ghash_update g d) = gh_feed (ghash_H g) (gh_abs g) d"
    and "ghash_H (ghash_update g d) = ghash_H g"
    and "ghash_aadlen (ghash_update g d) = ghash_aadlen g"
proof -
  let ?A = "absorb 16 0 (ghash_absorb_block (ghash_H g)) (ghash_X g)
              (pending (ghash_num g) (ghash_block g) @ d)"
  have r: "length (snd (snd ?A)) < 16" using absorb_rest_length [of 16 0] by simp
  have u: "ghash_update g d = g\<lparr>ghash_X := fst ?A, ghash_clen := ghash_clen g + length d,
             ghash_block := store (ghash_block g) (snd (snd ?A)),
             ghash_num := length (snd (snd ?A))\<rparr>"
    by (simp add: ghash_update_def case_prod_beta)
  show "Ghash_valid (ghash_update g d)"
    using assms r by (simp add: u Ghash_valid_def)
  show "gh_abs (ghash_update g d) = gh_feed (ghash_H g) (gh_abs g) d"
    using assms r by (simp add: u gh_abs_def gh_feed_def absorbing_def Ghash_valid_def)
  show "ghash_H (ghash_update g d) = ghash_H g" by (simp add: u)
  show "ghash_aadlen (ghash_update g d) = ghash_aadlen g" by (simp add: u)
qed

lemma ghash_finish_abs:
  "ghash_finish g = gh_final (ghash_H g) (ghash_aadlen g) (gh_abs g)"
  by (simp add: ghash_finish_def gh_final_def gh_abs_def Let_def)

lemma length_PUTU64 [simp]: "length (PUTU64 w) = 8"
  by (simp add: PUTU64_def)

lemma length_gh_final [simp]: "length (gh_final h alen a) = 16"
  by (simp add: gh_final_def gf128_to_bytes_def)

lemma ghash_init_valid: "Ghash_valid (ghash_init g h aad)"
  by (simp add: ghash_init_def Ghash_valid_def)

subsection \<open>GCM as a stream\<close>

lemma gcm_encrypt_machine_chunks:
  assumes "gcm_abs_valid a"
  shows "feeds (gcm_encrypt_machine E h) a ds = gcm_encrypt_machine E h a (concat ds)"
proof (rule feeds_concat [where J = gcm_abs_valid, OF _ _ _ assms])
  fix a :: gcm_abs assume "gcm_abs_valid a"
  then show "gcm_encrypt_machine E h a [] = (a, [])"
    by (simp add: gcm_encrypt_machine_def gcm_abs_valid_def absorbing_Nil gh_feed_Nil)
next
  fix a :: gcm_abs and d1 d2
  show "gcm_encrypt_machine E h a (d1 @ d2) =
          (fst (gcm_encrypt_machine E h (fst (gcm_encrypt_machine E h a d1)) d2),
           snd (gcm_encrypt_machine E h a d1)
             @ snd (gcm_encrypt_machine E h (fst (gcm_encrypt_machine E h a d1)) d2))"
    by (simp add: gcm_encrypt_machine_def absorbing_append gh_feed_append)
next
  fix a :: gcm_abs and d
  show "gcm_abs_valid (fst (gcm_encrypt_machine E h a d))"
    using absorbing_rest_length [of 16 0]
    by (simp add: gcm_encrypt_machine_def gcm_abs_valid_def gh_feed_pending)
qed

lemma holdback_split:
  assumes "t \<le> length a"
  obtains u v where "a = u @ v" "length v = t"
proof
  show "a = take (length a - t) a @ drop (length a - t) a" by simp
  show "length (drop (length a - t) a) = t" using assms by simp
qed

lemma holdback_take:
  "take (length a - t) a @ take (length (drop (length a - t) a @ b) - t) (drop (length a - t) a @ b)
     = take (length (a @ b) - t) (a @ b)"
proof (cases "t \<le> length a")
  case True
  then obtain u v where a: "a = u @ v" and v: "length v = t" by (rule holdback_split)
  show ?thesis unfolding a using v by simp
next
  case False
  then show ?thesis by simp
qed

lemma holdback_drop:
  "drop (length (drop (length a - t) a @ b) - t) (drop (length a - t) a @ b)
     = drop (length (a @ b) - t) (a @ b)"
proof (cases "t \<le> length a")
  case True
  then obtain u v where a: "a = u @ v" and v: "length v = t" by (rule holdback_split)
  show ?thesis unfolding a using v by simp
next
  case False
  then show ?thesis by simp
qed

lemma holdback_length: "length (drop (length x - t) x) \<le> t"
  by simp

lemma gcm_decrypt_machine_chunks:
  assumes "gcm_held_valid t a"
  shows "feeds (gcm_decrypt_machine E h t) a ds = gcm_decrypt_machine E h t a (concat ds)"
proof (rule feeds_concat [where J = "gcm_held_valid t", OF _ _ _ assms])
  fix a :: "gcm_abs \<times> bytes" assume "gcm_held_valid t a"
  then show "gcm_decrypt_machine E h t a [] = (a, [])"
    by (simp add: gcm_decrypt_machine_def gcm_held_valid_def gcm_abs_valid_def
        absorbing_Nil gh_feed_Nil)
next
  fix a :: "gcm_abs \<times> bytes" and d1 d2
  let ?x = "snd a @ d1"
  have t: "take (length (snd a @ d1 @ d2) - t) (snd a @ d1 @ d2)
             = take (length ?x - t) ?x
               @ take (length (drop (length ?x - t) ?x @ d2) - t) (drop (length ?x - t) ?x @ d2)"
    using holdback_take [of ?x t d2] by simp
  have d: "drop (length (snd a @ d1 @ d2) - t) (snd a @ d1 @ d2)
             = drop (length (drop (length ?x - t) ?x @ d2) - t) (drop (length ?x - t) ?x @ d2)"
    using holdback_drop [of ?x t d2] by simp
  show "gcm_decrypt_machine E h t a (d1 @ d2) =
          (fst (gcm_decrypt_machine E h t (fst (gcm_decrypt_machine E h t a d1)) d2),
           snd (gcm_decrypt_machine E h t a d1)
             @ snd (gcm_decrypt_machine E h t (fst (gcm_decrypt_machine E h t a d1)) d2))"
    unfolding gcm_decrypt_machine_def fst_conv snd_conv t d
    by (simp add: absorbing_append gh_feed_append)
next
  fix a :: "gcm_abs \<times> bytes" and d
  assume "gcm_held_valid t a"
  show "gcm_held_valid t (fst (gcm_decrypt_machine E h t a d))"
    unfolding gcm_decrypt_machine_def gcm_held_valid_def gcm_abs_valid_def fst_conv snd_conv
    using absorbing_rest_length [of 16 0 "ctr_encrypt_block E ctr32_incr"]
      gh_feed_pending holdback_length
    by (intro conjI) simp_all
qed

subsection \<open>GCM behind the binding\<close>

lemma ctr_update_abs:
  assumes "Sm4Ctr_valid c"
  shows "fst (ctr_update P incr c d) = 1"
    and "fst (snd (snd (ctr_update P incr c d))) =
           snd (absorbing 16 0 (ctr_encrypt_block (spec_sm4_encrypt P (ctr_sm4_key c)) incr)
                  (ctr_abs c) d)"
    and "snd (snd (snd (ctr_update P incr c d))) = length (fst (snd (snd (ctr_update P incr c d))))"
    and "length (fst (snd (snd (ctr_update P incr c d)))) \<le> ctr_block_nbytes c + length d"
  using ctr_update_valid(2) [OF assms, of P incr d]
  by (simp_all add: ctr_update_valid(1) [OF assms])

lemma Sm4Gcm_encrypt_update_step:
  assumes "Sm4Gcm_valid s \<and> gcm_fixed s = (K, h, alen, y, t, True)"
  shows "fst (Sm4Gcm_update (modelled P lib) s d) =
           Inr (snd (gcm_encrypt_machine (spec_sm4_encrypt P K) h (gcm_abs s) d))
       \<and> (Sm4Gcm_valid (fst (snd (Sm4Gcm_update (modelled P lib) s d)))
          \<and> gcm_fixed (fst (snd (Sm4Gcm_update (modelled P lib) s d))) = (K, h, alen, y, t, True))
       \<and> gcm_abs (fst (snd (Sm4Gcm_update (modelled P lib) s d))) =
           fst (gcm_encrypt_machine (spec_sm4_encrypt P K) h (gcm_abs s) d)"
proof -
  let ?c = "gcm_fields s"
  let ?cc = "gcm_sm4_ctr_ctx ?c" and ?g = "gcm_mac_ctx ?c"
  from assms have v: "Sm4Gcm_valid s" and fx: "gcm_fixed s = (K, h, alen, y, t, True)" by simp_all
  from v have vc: "Sm4Ctr_valid ?cc" and vg: "Ghash_valid ?g" by (simp_all add: Sm4Gcm_valid_def)
  from fx have K: "ctr_sm4_key ?cc = K" and h: "ghash_H ?g = h" and e: "gcm_encrypt s"
    by (simp_all add: gcm_fixed_def)
  obtain ret cc out outlen where u: "ctr_update P ctr32_incr ?cc d = (ret, cc, out, outlen)"
    by (cases "ctr_update P ctr32_incr ?cc d") auto
  let ?G = "absorbing 16 0 (ctr_encrypt_block (spec_sm4_encrypt P K) ctr32_incr) (ctr_abs ?cc) d"
  from ctr_update_abs [OF vc, of P ctr32_incr d] u K
  have ret: "ret = 1" and out: "out = snd ?G" and outlen: "outlen = length out"
    and le: "length out \<le> ctr_block_nbytes ?cc + length d"
    by simp_all
  from ctr_update_step [OF vc, of P ctr32_incr d] u K
  have vcc: "Sm4Ctr_valid cc" and Kcc: "ctr_sm4_key cc = K" and acc: "ctr_abs cc = fst ?G"
    by simp_all
  have le': "length out \<le> length d + 16"
    using le vc by (simp add: Sm4Ctr_valid_def)
  let ?s' = "s\<lparr>gcm_fields := ?c\<lparr>gcm_sm4_ctr_ctx := cc, gcm_mac_ctx := ghash_update ?g out\<rparr>\<rparr>"
  have upd: "Sm4Gcm_update (modelled P lib) s d = (Inr out, ?s', [''sm4_gcm_encrypt_update''])"
    using e
    by (simp add: Sm4Gcm_update_def spec_sm4_gcm_encrypt_update_def u ret outlen sliced_def
        returned_all [OF le'] SM4_BLOCK_SIZE_def)
  have v': "Sm4Gcm_valid ?s'"
    using v vcc ghash_update_valid(1) [OF vg] by (simp add: Sm4Gcm_valid_def)
  have fx': "gcm_fixed ?s' = (K, h, alen, y, t, True)"
    using fx Kcc ghash_update_valid(3,4) [OF vg] by (simp add: gcm_fixed_def)
  have a': "gcm_abs ?s' = fst (gcm_encrypt_machine (spec_sm4_encrypt P K) h (gcm_abs s) d)"
    using acc ghash_update_valid(2) [OF vg, of out] h
    by (simp add: gcm_abs_def gcm_encrypt_machine_def out)
  show ?thesis
    unfolding upd fst_conv snd_conv using v' fx' a'
    by (simp add: gcm_encrypt_machine_def gcm_abs_def out)
qed

lemma Sm4Gcm_encrypt_finish_step:
  assumes "Sm4Gcm_valid s \<and> gcm_fixed s = (K, h, alen, y, t, True)"
  shows "fst (Sm4Gcm_finish (modelled P lib) s) =
           Inr (gcm_encrypt_flush (spec_sm4_encrypt P K) h alen y t (gcm_abs s))"
proof -
  let ?c = "gcm_fields s"
  let ?cc = "gcm_sm4_ctr_ctx ?c" and ?g = "gcm_mac_ctx ?c"
  from assms have v: "Sm4Gcm_valid s" and fx: "gcm_fixed s = (K, h, alen, y, t, True)" by simp_all
  from v have vc: "Sm4Ctr_valid ?cc" and vg: "Ghash_valid ?g" and t16: "gcm_taglen ?c \<le> 16"
    by (simp_all add: Sm4Gcm_valid_def)
  from fx have K: "ctr_sm4_key ?cc = K" and h: "ghash_H ?g = h" and e: "gcm_encrypt s"
    and al: "ghash_aadlen ?g = alen" and y: "gcm_Y ?c = y" and t: "gcm_taglen ?c = t"
    by (simp_all add: gcm_fixed_def)
  obtain ret cc out outlen where f: "ctr_finish P ctr32_incr ?cc = (ret, cc, out, outlen)"
    by (cases "ctr_finish P ctr32_incr ?cc") auto
  from ctr_finish_valid [OF vc, of P ctr32_incr] f K
  have ret: "ret = 1" and out: "out = ctr_flush (spec_sm4_encrypt P K) (ctr_abs ?cc)"
    and lo: "length out < 16" by simp_all
  let ?g' = "ghash_update ?g out"
  have tag: "gcm_tag ?c ?g' = take t (xor_bytes (gh_final h alen (gh_feed h (gh_abs ?g) out)) y)"
    using ghash_update_valid(2,3,4) [OF vg, of out] h al y t
    by (simp add: gcm_tag_def ghash_finish_abs)
  have len: "length (out @ gcm_tag ?c ?g') \<le> 32"
    using lo by (simp add: tag)
  note r = returned_all [OF len, unfolded length_append]
  have "fst (Sm4Gcm_finish (modelled P lib) s) = Inr (out @ gcm_tag ?c ?g')"
    using e
    by (simp add: Sm4Gcm_finish_def spec_sm4_gcm_encrypt_finish_def f ret Let_def sliced_def
        r SM4_BLOCK_SIZE_def SM4_GCM_MAX_TAG_SIZE_def)
  then show ?thesis
    using tag by (simp add: gcm_encrypt_flush_def gcm_abs_def out)
qed

lemma Sm4Gcm_decrypt_update_step:
  assumes "Sm4Gcm_valid s \<and> gcm_fixed s = (K, h, alen, y, t, False)"
  shows "fst (Sm4Gcm_update (modelled P lib) s d) =
           Inr (snd (gcm_decrypt_machine (spec_sm4_encrypt P K) h t (gcm_abs s, gcm_held s) d))
       \<and> (Sm4Gcm_valid (fst (snd (Sm4Gcm_update (modelled P lib) s d)))
          \<and> gcm_fixed (fst (snd (Sm4Gcm_update (modelled P lib) s d))) = (K, h, alen, y, t, False))
       \<and> (gcm_abs (fst (snd (Sm4Gcm_update (modelled P lib) s d))),
          gcm_held (fst (snd (Sm4Gcm_update (modelled P lib) s d)))) =
           fst (gcm_decrypt_machine (spec_sm4_encrypt P K) h t (gcm_abs s, gcm_held s) d)"
proof -
  let ?c = "gcm_fields s"
  let ?cc = "gcm_sm4_ctr_ctx ?c" and ?g = "gcm_mac_ctx ?c"
  from assms have v: "Sm4Gcm_valid s" and fx: "gcm_fixed s = (K, h, alen, y, t, False)" by simp_all
  from v have vc: "Sm4Ctr_valid ?cc" and vg: "Ghash_valid ?g"
    and lm: "length (gcm_mac ?c) = 16" and ml: "gcm_maclen ?c \<le> gcm_taglen ?c"
    and t16: "gcm_taglen ?c \<le> 16"
    by (simp_all add: Sm4Gcm_valid_def)
  from fx have K: "ctr_sm4_key ?cc = K" and h: "ghash_H ?g = h" and e: "\<not> gcm_encrypt s"
    and t: "gcm_taglen ?c = t"
    by (simp_all add: gcm_fixed_def)
  let ?total = "gcm_held s @ d"
  let ?n = "length ?total - t"
  let ?ct = "take ?n ?total" and ?held = "drop ?n ?total"
  have lheld: "length (gcm_held s) = gcm_maclen ?c"
    using ml t16 lm by (simp add: gcm_held_def pending_def)
  have lct: "length ?ct \<le> length d"
    using lheld ml t by simp
  have lh: "length ?held \<le> t" by (rule holdback_length)
  obtain ret cc out outlen where u: "ctr_update P ctr32_incr ?cc ?ct = (ret, cc, out, outlen)"
    by (cases "ctr_update P ctr32_incr ?cc ?ct") auto
  let ?G = "absorbing 16 0 (ctr_encrypt_block (spec_sm4_encrypt P K) ctr32_incr) (ctr_abs ?cc) ?ct"
  from ctr_update_abs [OF vc, of P ctr32_incr ?ct] u K
  have ret: "ret = 1" and out: "out = snd ?G" and outlen: "outlen = length out"
    and le: "length out \<le> ctr_block_nbytes ?cc + length ?ct"
    by simp_all
  from ctr_update_step [OF vc, of P ctr32_incr ?ct] u K
  have vcc: "Sm4Ctr_valid cc" and Kcc: "ctr_sm4_key cc = K" and acc: "ctr_abs cc = fst ?G"
    by simp_all
  have le': "length out \<le> length d + 16"
    using le lct vc by (simp add: Sm4Ctr_valid_def)
  let ?s' = "s\<lparr>gcm_fields := ?c\<lparr>gcm_sm4_ctr_ctx := cc, gcm_mac_ctx := ghash_update ?g ?ct,
                gcm_mac := store (gcm_mac ?c) ?held, gcm_maclen := length ?held\<rparr>\<rparr>"
  have spec: "spec_sm4_gcm_decrypt_update P ?c d = (1, gcm_fields ?s', out, outlen)"
    using ml u
    by (simp add: spec_sm4_gcm_decrypt_update_def Let_def gcm_held_def [symmetric] t ret
        del: take_append drop_append length_append length_drop length_take)
  have upd: "Sm4Gcm_update (modelled P lib) s d = (Inr out, ?s', [''sm4_gcm_decrypt_update''])"
    using e
    by (simp add: Sm4Gcm_update_def spec outlen sliced_def returned_all [OF le']
        SM4_BLOCK_SIZE_def)
  have v': "Sm4Gcm_valid ?s'"
    using v vcc ghash_update_valid(1) [OF vg] lh t
    by (simp add: Sm4Gcm_valid_def
        del: take_append drop_append length_append length_drop length_take)
  have fx': "gcm_fixed ?s' = (K, h, alen, y, t, False)"
    using fx Kcc ghash_update_valid(3,4) [OF vg] by (simp add: gcm_fixed_def)
  have a': "gcm_abs ?s' = (fst ?G, gh_feed h (gh_abs ?g) ?ct)"
    using acc ghash_update_valid(2) [OF vg, of ?ct] h by (simp add: gcm_abs_def)
  have l2: "length ?held \<le> length (gcm_mac ?c)"
    using lh t16 unfolding t lm by (rule order_trans)
  have h': "gcm_held ?s' = ?held"
    using l2
    by (simp add: gcm_held_def
        del: take_append drop_append length_append length_drop length_take)
  show ?thesis
    unfolding upd fst_conv snd_conv a' h'
    using v' fx'
    by (simp add: gcm_decrypt_machine_def gcm_abs_def out)
qed

lemma Sm4Gcm_decrypt_finish_step:
  assumes "Sm4Gcm_valid s \<and> gcm_fixed s = (K, h, alen, y, t, False)"
  shows "fst (Sm4Gcm_finish (modelled P lib) s) =
           gcm_decrypt_flush (spec_sm4_encrypt P K) h alen y t (gcm_abs s, gcm_held s)"
proof -
  let ?c = "gcm_fields s"
  let ?cc = "gcm_sm4_ctr_ctx ?c" and ?g = "gcm_mac_ctx ?c"
  from assms have v: "Sm4Gcm_valid s" and fx: "gcm_fixed s = (K, h, alen, y, t, False)" by simp_all
  from v have vc: "Sm4Ctr_valid ?cc" and vg: "Ghash_valid ?g"
    and lm: "length (gcm_mac ?c) = 16" and ml: "gcm_maclen ?c \<le> gcm_taglen ?c"
    and t16: "gcm_taglen ?c \<le> 16"
    by (simp_all add: Sm4Gcm_valid_def)
  from fx have K: "ctr_sm4_key ?cc = K" and h: "ghash_H ?g = h" and e: "\<not> gcm_encrypt s"
    and al: "ghash_aadlen ?g = alen" and y: "gcm_Y ?c = y" and t: "gcm_taglen ?c = t"
    by (simp_all add: gcm_fixed_def)
  have lheld: "length (gcm_held s) = gcm_maclen ?c"
    using ml t16 lm by (simp add: gcm_held_def pending_def)
  obtain ret cc out outlen where f: "ctr_finish P ctr32_incr ?cc = (ret, cc, out, outlen)"
    by (cases "ctr_finish P ctr32_incr ?cc") auto
  from ctr_finish_valid [OF vc, of P ctr32_incr] f K
  have ret: "ret = 1" and out: "out = ctr_flush (spec_sm4_encrypt P K) (ctr_abs ?cc)"
    and outlen: "outlen = length out" and lo: "length out < 16" by simp_all
  have tag: "gcm_tag ?c ?g = take t (xor_bytes (gh_final h alen (gh_abs ?g)) y)"
    using h al y t by (simp add: gcm_tag_def ghash_finish_abs)
  have lo': "length out \<le> 32" using lo by simp
  show ?thesis
  proof (cases "gcm_maclen ?c = t")
    case False
    then show ?thesis
      using e lheld t
      by (simp add: Sm4Gcm_finish_def spec_sm4_gcm_decrypt_finish_def sliced_def
          gcm_decrypt_flush_def)
  next
    case True
    show ?thesis
    proof (cases "gcm_tag ?c ?g = gcm_held s")
      case ne: False
      then show ?thesis
        using e lheld t True tag
        by (simp add: Sm4Gcm_finish_def spec_sm4_gcm_decrypt_finish_def sliced_def
            gcm_decrypt_flush_def f ret gcm_held_def gcm_abs_def)
    next
      case eq: True
      then show ?thesis
        using e lheld t True tag returned_all [OF lo']
        by (simp add: Sm4Gcm_finish_def spec_sm4_gcm_decrypt_finish_def sliced_def
            gcm_decrypt_flush_def f ret gcm_held_def gcm_abs_def outlen
            SM4_BLOCK_SIZE_def SM4_GCM_MAX_TAG_SIZE_def out)
    qed
  qed
qed

subsection \<open>GCM on a whole message\<close>

lemma Sm4Gcm_abs_valid:
  "Sm4Gcm_valid s \<Longrightarrow> gcm_abs_valid (gcm_abs s)"
  by (auto simp: Sm4Gcm_valid_def gcm_abs_valid_def gcm_abs_def ctr_abs_def gh_abs_def
      Sm4Ctr_valid_def Ghash_valid_def pending_def)

lemma Sm4Gcm_held_valid:
  "Sm4Gcm_valid s \<Longrightarrow> gcm_held_valid (gcm_taglen (gcm_fields s)) (gcm_abs s, gcm_held s)"
  by (simp add: gcm_held_valid_def Sm4Gcm_abs_valid)
     (simp add: Sm4Gcm_valid_def gcm_held_def pending_def)

lemma Sm4Gcm_run_encrypt:
  assumes "Sm4Gcm_valid s" and "gcm_fixed s = (K, h, alen, y, t, True)"
  shows "run (Sm4Gcm_update (modelled P lib)) (Sm4Gcm_finish (modelled P lib)) s ds =
           Inr (gcm_encrypt_whole (spec_sm4_encrypt P K) h alen y t (gcm_abs s) (concat ds))"
proof -
  have I: "Sm4Gcm_valid s \<and> gcm_fixed s = (K, h, alen, y, t, True)" using assms by simp
  show ?thesis
    by (subst run_simulates [where I = "\<lambda>s. Sm4Gcm_valid s \<and> gcm_fixed s = (K, h, alen, y, t, True)"
          and \<alpha> = gcm_abs
          and F = "\<lambda>a. Inr (gcm_encrypt_flush (spec_sm4_encrypt P K) h alen y t a)"
          and g = "gcm_encrypt_machine (spec_sm4_encrypt P K) h",
          OF Sm4Gcm_encrypt_update_step Sm4Gcm_encrypt_finish_step I])
       (simp_all add: gcm_encrypt_machine_chunks [OF Sm4Gcm_abs_valid [OF assms(1)]]
          gcm_encrypt_whole_def)
qed

lemma Sm4Gcm_run_decrypt:
  assumes "Sm4Gcm_valid s" and "gcm_fixed s = (K, h, alen, y, t, False)"
  shows "run (Sm4Gcm_update (modelled P lib)) (Sm4Gcm_finish (modelled P lib)) s ds =
           gcm_decrypt_whole (spec_sm4_encrypt P K) h alen y t (gcm_abs s, gcm_held s) (concat ds)"
proof -
  have I: "Sm4Gcm_valid s \<and> gcm_fixed s = (K, h, alen, y, t, False)" using assms by simp
  have t: "gcm_taglen (gcm_fields s) = t" using assms(2) by (simp add: gcm_fixed_def)
  note hv = Sm4Gcm_held_valid [OF assms(1), unfolded t]
  show ?thesis
    by (subst run_simulates [where I = "\<lambda>s. Sm4Gcm_valid s \<and> gcm_fixed s = (K, h, alen, y, t, False)"
          and \<alpha> = "\<lambda>s. (gcm_abs s, gcm_held s)"
          and F = "gcm_decrypt_flush (spec_sm4_encrypt P K) h alen y t"
          and g = "gcm_decrypt_machine (spec_sm4_encrypt P K) h t",
          OF Sm4Gcm_decrypt_update_step Sm4Gcm_decrypt_finish_step I])
       (simp_all add: gcm_decrypt_machine_chunks [OF hv] gcm_decrypt_whole_def
          cong: sum.case_cong)
qed

lemma gcm_encrypt_whole_eq:
  "gcm_encrypt_whole E h alen y t ((c, []), g) m =
     ctr_whole E ctr32_incr (c, []) m
     @ take t (xor_bytes (gh_final h alen (gh_feed h g (ctr_whole E ctr32_incr (c, []) m))) y)"
  by (simp add: gcm_encrypt_whole_def gcm_encrypt_machine_def gcm_encrypt_flush_def
      ctr_whole_def gh_feed_append)

lemma gcm_decrypt_whole_eq:
  assumes "length tag = t"
  shows "gcm_decrypt_whole E h alen y t (((c, []), g), []) (ct @ tag) =
     (if take t (xor_bytes (gh_final h alen (gh_feed h g ct)) y) \<noteq> tag then Inl inner_error
      else Inr (ctr_whole E ctr32_incr (c, []) ct))"
  using assms
  by (simp add: gcm_decrypt_whole_def gcm_decrypt_machine_def gcm_decrypt_flush_def
      ctr_whole_def)

lemma gcm_round_trip:
  assumes "\<And>x. length (E x) = 16" and "length y = 16" and "t \<le> 16"
  shows "gcm_decrypt_whole E h alen y t (((c, []), g), [])
           (gcm_encrypt_whole E h alen y t ((c, []), g) m) = Inr m"
proof -
  let ?ct = "ctr_whole E ctr32_incr (c, []) m"
  let ?tag = "take t (xor_bytes (gh_final h alen (gh_feed h g ?ct)) y)"
  have lt: "length ?tag = t" using assms(2,3) by simp
  show ?thesis
    unfolding gcm_encrypt_whole_eq gcm_decrypt_whole_eq [OF lt]
    by (simp add: ctr_whole_involution [OF assms(1)])
qed

lemma gcm_init_start:
  assumes "length key = 16" "1 \<le> length iv" "length iv \<le> 64" "1 \<le> t" "t \<le> 16"
  shows "gcm_init P Sm4Gcm_new key iv aad t = (1, gcm_start P key iv aad t)"
  using assms
  by (auto simp: gcm_start_def gcm_init_def SM4_KEY_SIZE_def SM4_GCM_MIN_IV_SIZE_def
      SM4_GCM_MAX_IV_SIZE_def SM4_GCM_MAX_TAG_SIZE_def Let_def)

lemma gcm_start_fields:
  assumes "length key = 16" "1 \<le> length iv" "length iv \<le> 64" "1 \<le> t" "t \<le> 16"
  shows "ctr_block_nbytes (gcm_sm4_ctr_ctx (gcm_start P key iv aad t)) = 0"
    and "length (ctr_block (gcm_sm4_ctr_ctx (gcm_start P key iv aad t))) = 16"
    and "Ghash_valid (gcm_mac_ctx (gcm_start P key iv aad t))"
    and "ghash_num (gcm_mac_ctx (gcm_start P key iv aad t)) = 0"
    and "length (gcm_Y (gcm_start P key iv aad t)) = 16"
    and "gcm_taglen (gcm_start P key iv aad t) = t"
    and "length (gcm_mac (gcm_start P key iv aad t)) = 16"
    and "gcm_maclen (gcm_start P key iv aad t) = 0"
proof -
  have iv: "iv \<noteq> []" using assms(2) by auto
  have num: "ghash_num (ghash_init c h a) = 0" for c h a
    by (simp add: ghash_init_def)
  show "ctr_block_nbytes (gcm_sm4_ctr_ctx (gcm_start P key iv aad t)) = 0"
    and "length (ctr_block (gcm_sm4_ctr_ctx (gcm_start P key iv aad t))) = 16"
    and "Ghash_valid (gcm_mac_ctx (gcm_start P key iv aad t))"
    and "ghash_num (gcm_mac_ctx (gcm_start P key iv aad t)) = 0"
    and "length (gcm_Y (gcm_start P key iv aad t)) = 16"
    and "gcm_taglen (gcm_start P key iv aad t) = t"
    and "length (gcm_mac (gcm_start P key iv aad t)) = 16"
    and "gcm_maclen (gcm_start P key iv aad t) = 0"
    using assms iv
    by (simp_all add: gcm_start_def gcm_init_def SM4_KEY_SIZE_def SM4_GCM_MIN_IV_SIZE_def
        SM4_GCM_MAX_IV_SIZE_def SM4_GCM_MAX_TAG_SIZE_def Let_def SM4_BLOCK_SIZE_def
        ghash_init_valid num)
qed

lemma Sm4Gcm_init_modelled:
  assumes "length key = 16" "1 \<le> length iv" "length iv \<le> 64" "1 \<le> t" "t \<le> 16"
  shows "fst (Sm4Gcm_init (modelled P lib) key iv aad t enc)
           = Inr \<lparr>gcm_fields = gcm_start P key iv aad (nat t), gcm_encrypt = enc\<rparr>"
proof -
  have nt: "1 \<le> nat t" "nat t \<le> 16" using assms by auto
  have iv: "iv \<noteq> []" using assms(2) by auto
  note ok = gcm_init_start [OF assms(1-3) nt, of P aad]
  show ?thesis
    using assms iv
    by (cases enc)
       (simp_all add: Sm4Gcm_init_def SM4_KEY_SIZE_def SM4_GCM_MIN_IV_SIZE_def
        SM4_GCM_MAX_IV_SIZE_def SM4_GCM_MAX_TAG_SIZE_def ok)
qed

lemma gcm_start_valid:
  assumes "length key = 16" "1 \<le> length iv" "length iv \<le> 64" "1 \<le> t" "t \<le> 16"
  shows "Sm4Gcm_valid \<lparr>gcm_fields = gcm_start P key iv aad t, gcm_encrypt = enc\<rparr>"
    and "gcm_held \<lparr>gcm_fields = gcm_start P key iv aad t, gcm_encrypt = enc\<rparr> = []"
    and "snd (fst (gcm_abs \<lparr>gcm_fields = gcm_start P key iv aad t, gcm_encrypt = enc\<rparr>)) = []"
    and "gcm_abs \<lparr>gcm_fields = gcm_start P key iv aad t, gcm_encrypt = enc\<rparr>
           = gcm_abs \<lparr>gcm_fields = gcm_start P key iv aad t, gcm_encrypt = True\<rparr>"
    and "gcm_fixed \<lparr>gcm_fields = gcm_start P key iv aad t, gcm_encrypt = enc\<rparr> =
           (ctr_sm4_key (gcm_sm4_ctr_ctx (gcm_start P key iv aad t)),
            ghash_H (gcm_mac_ctx (gcm_start P key iv aad t)),
            ghash_aadlen (gcm_mac_ctx (gcm_start P key iv aad t)),
            gcm_Y (gcm_start P key iv aad t), t, enc)"
  using gcm_start_fields [OF assms, of P aad] assms
  by (simp_all add: Sm4Gcm_valid_def Sm4Ctr_valid_def gcm_held_def pending_def gcm_abs_def
      ctr_abs_def gcm_fixed_def)

subsection \<open>The streams of the modelled library\<close>







lemma gcm_expected_tag_eq:
  assumes "length key = 16" "1 \<le> length iv" "length iv \<le> 64" "1 \<le> t" "t \<le> 16"
  shows "gcm_expected_tag P key iv aad t body =
           take t (xor_bytes
             (gh_final (ghash_H (gcm_mac_ctx (gcm_start P key iv aad t)))
                (ghash_aadlen (gcm_mac_ctx (gcm_start P key iv aad t)))
                (gh_feed (ghash_H (gcm_mac_ctx (gcm_start P key iv aad t)))
                   (gh_abs (gcm_mac_ctx (gcm_start P key iv aad t))) body))
             (gcm_Y (gcm_start P key iv aad t)))"
  using gcm_start_fields(3,6) [OF assms, of P aad]
  by (simp add: gcm_expected_tag_def gcm_start_def [symmetric] gcm_tag_def ghash_finish_abs
      ghash_update_valid Let_def)

lemma length_gcm_expected_tag:
  assumes "length key = 16" "1 \<le> length iv" "length iv \<le> 64" "1 \<le> t" "t \<le> 16"
  shows "length (gcm_expected_tag P key iv aad t body) = t"
  using gcm_start_fields(5) [OF assms, of P aad] assms(5)
  by (simp add: gcm_expected_tag_eq [OF assms])

lemma Sm4Gcm_stream_encrypt_modelled:
  assumes "length key = 16" "1 \<le> length iv" "length iv \<le> 64" "1 \<le> t" "t \<le> 16"
  shows "Sm4Gcm_stream (modelled P lib) key iv aad t True ds =
           Inr (gcm_crypt_whole P key iv aad (nat t) (concat ds)
                @ gcm_expected_tag P key iv aad (nat t)
                    (gcm_crypt_whole P key iv aad (nat t) (concat ds)))"
proof -
  have nt: "1 \<le> nat t" "nat t \<le> 16" using assms by auto
  let ?S = "gcm_start P key iv aad (nat t)"
  let ?s = "\<lparr>gcm_fields = ?S, gcm_encrypt = True\<rparr>"
  note v = gcm_start_valid [OF assms(1-3) nt, of P aad True]
  note f = gcm_start_fields [OF assms(1-3) nt, of P aad]
  have a: "gcm_abs ?s = ((ctr_ctr (gcm_sm4_ctr_ctx ?S), []), gh_abs (gcm_mac_ctx ?S))"
    using f(1) by (simp add: gcm_abs_def ctr_abs_def pending_def)
  show ?thesis
    unfolding Sm4Gcm_stream_def constructed_then_def Sm4Gcm_init_modelled [OF assms]
    by (simp add: Sm4Gcm_run_encrypt [OF v(1) v(5)] a gcm_encrypt_whole_eq
        gcm_expected_tag_eq [OF assms(1-3) nt] gcm_crypt_whole_def gcm_start_def [symmetric]
        Let_def)
qed

lemma Sm4Gcm_stream_decrypt_modelled:
  assumes "length key = 16" "1 \<le> length iv" "length iv \<le> 64" "1 \<le> t" "t \<le> 16"
    and "concat ds = body @ tag" and "length tag = nat t"
  shows "Sm4Gcm_stream (modelled P lib) key iv aad t False ds =
           (if tag \<noteq> gcm_expected_tag P key iv aad (nat t) body then Inl inner_error
            else Inr (gcm_crypt_whole P key iv aad (nat t) body))"
proof -
  have nt: "1 \<le> nat t" "nat t \<le> 16" using assms by auto
  let ?S = "gcm_start P key iv aad (nat t)"
  let ?s = "\<lparr>gcm_fields = ?S, gcm_encrypt = False\<rparr>"
  note v = gcm_start_valid [OF assms(1-3) nt, of P aad False]
  note f = gcm_start_fields [OF assms(1-3) nt, of P aad]
  have a: "gcm_abs ?s = ((ctr_ctr (gcm_sm4_ctr_ctx ?S), []), gh_abs (gcm_mac_ctx ?S))"
    using f(1) by (simp add: gcm_abs_def ctr_abs_def pending_def)
  show ?thesis
    unfolding Sm4Gcm_stream_def constructed_then_def Sm4Gcm_init_modelled [OF assms(1-5)]
    by (simp add: Sm4Gcm_run_decrypt [OF v(1) v(5)] a v(2) assms(6)
        gcm_decrypt_whole_eq [OF assms(7)]
        gcm_expected_tag_eq [OF assms(1-3) nt] gcm_crypt_whole_def gcm_start_def [symmetric]
        Let_def)
qed


lemma length_xor_whole:
  assumes ks: "\<And>s. length (ks s) = n" and n: "0 < n"
  shows "length (xor_whole n nxt ks s m) = length m"
proof (induction "length m" arbitrary: m s rule: less_induct)
  case less
  show ?case
  proof (cases "length m < n")
    case True
    then show ?thesis by (simp add: xor_whole_short ks)
  next
    case False
    then have len: "n \<le> length m" by simp
    have "length (xor_whole n nxt ks (nxt s) (drop n m)) = length (drop n m)"
      using n len by (intro less) simp
    then show ?thesis
      using len by (simp add: xor_whole_long [OF n len] ks)
  qed
qed

lemma length_gcm_crypt_whole: "length (gcm_crypt_whole P key iv aad t m) = length m"
  by (simp add: gcm_crypt_whole_def Let_def ctr_whole_xor length_xor_whole)

subsection \<open>Evaluation of SM4 and of the multiplication of GHASH\<close>

lemma nrm_numeral: "nrm (numeral k) = word_of_nat (take_bit 32 (numeral k))"
proof -
  have "(numeral k :: 32 word) = take_bit LENGTH(32) (of_nat (numeral k))"
    by (simp only: take_bit_length_eq of_nat_numeral)
  also have "\<dots> = of_nat (take_bit LENGTH(32) (numeral k))"
    by (rule take_bit_of_nat)
  finally show ?thesis by (simp add: nrm_def)
qed

lemma nrm_0: "nrm 0 = 0" by (simp add: nrm_def)

lemma nrm_1: "nrm 1 = 1" by (simp add: nrm_def)

lemma ROL32_eval: "ROL32 a n = nrm (push_bit n a OR drop_bit (32 - n) a)"
  by (simp add: nrm_def ROL32_def)

lemma sm4_step_eval:
  "sm4_step t k [x0, x1, x2, x3] = [x1, x2, x3, x0 XOR t (x1 XOR x2 XOR x3 XOR k)]"
  by (simp add: sm4_step_def)

lemma upt4: "[0..<4] = [0, 1, 2, 3]"
  by (simp add: upt_rec)

lemma upt32:
  "[0..<32] =
       [0, 1, 2, 3, 4, 5, 6, 7, 8, 9, 10, 11, 12, 13, 14, 15]
     @ [16, 17, 18, 19, 20, 21, 22, 23, 24, 25, 26, 27, 28, 29, 30, 31]"
  by (simp add: upt_rec)

lemma words_of_eval:
  "words_of [b0, b1, b2, b3, b4, b5, b6, b7, b8, b9, b10, b11, b12, b13, b14, b15] =
     [GETU32 [b0, b1, b2, b3], GETU32 [b4, b5, b6, b7], GETU32 [b8, b9, b10, b11],
      GETU32 [b12, b13, b14, b15]]"
  by (simp add: words_of_def upt4 GETU32_def)

lemma key_schedule_key0: "sm4_key_schedule standard_sbox key0 = rk0"
  unfolding key0_def rk0_def
  by (simp add: sm4_key_schedule_def words_of_eval sm4_step_eval sm4_tau_def sm4_L'_def
      sm4_FK_def sm4_CK_def upt32 upt4 PUTU32_def GETU32_def standard_sbox_def sm4_SBOX_def
      ROL32_eval nrm_numeral nrm_0 nrm_1)

lemma sm4_key0_zero:
  "sm4_crypt standard_sbox rk0 [0, 0, 0, 0, 0, 0, 0, 0, 0, 0, 0, 0, 0, 0, 0, 0] =
     [0x07, 0x84, 0xfb, 0xab, 0x1e, 0x74, 0x49, 0x95, 0xc3, 0x7b, 0x4f, 0x22, 0x5e, 0xd8, 0xc9, 0x89]"
  unfolding rk0_def
  by (simp add: sm4_crypt_def words_of_eval sm4_step_eval sm4_tau_def sm4_L_def PUTU32_def GETU32_def
      standard_sbox_def sm4_SBOX_def ROL32_eval nrm_numeral nrm_0 nrm_1)

lemma sm4_key0_y0:
  "sm4_crypt standard_sbox rk0 [0, 0, 0, 0, 0, 0, 0, 0, 0, 0, 0, 0, 0, 0, 0, 0x01] =
     [0x7c, 0xf3, 0xa6, 0x62, 0x43, 0x92, 0x1b, 0xbf, 0x9f, 0x71, 0xdd, 0x63, 0xb4, 0xe0, 0x92, 0xce]"
  unfolding rk0_def
  by (simp add: sm4_crypt_def words_of_eval sm4_step_eval sm4_tau_def sm4_L_def PUTU32_def GETU32_def
      standard_sbox_def sm4_SBOX_def ROL32_eval nrm_numeral nrm_0 nrm_1)

lemma sm4_key0_ctr:
  "sm4_crypt standard_sbox rk0 [0, 0, 0, 0, 0, 0, 0, 0, 0, 0, 0, 0, 0, 0, 0, 0x02] =
     [0x13, 0x59, 0x39, 0xc5, 0xf2, 0xb5, 0x0b, 0xe2, 0x57, 0x08, 0x26, 0xd2, 0x23, 0xb9, 0x4a, 0x8b]"
  unfolding rk0_def
  by (simp add: sm4_crypt_def words_of_eval sm4_step_eval sm4_tau_def sm4_L_def PUTU32_def GETU32_def
      standard_sbox_def sm4_SBOX_def ROL32_eval nrm_numeral nrm_0 nrm_1)

lemma upt128:
  "[0..<128] =
       [0, 1, 2, 3, 4, 5, 6, 7, 8, 9, 10, 11, 12, 13, 14, 15]
     @ [16, 17, 18, 19, 20, 21, 22, 23, 24, 25, 26, 27, 28, 29, 30, 31]
     @ [32, 33, 34, 35, 36, 37, 38, 39, 40, 41, 42, 43, 44, 45, 46, 47]
     @ [48, 49, 50, 51, 52, 53, 54, 55, 56, 57, 58, 59, 60, 61, 62, 63]
     @ [64, 65, 66, 67, 68, 69, 70, 71, 72, 73, 74, 75, 76, 77, 78, 79]
     @ [80, 81, 82, 83, 84, 85, 86, 87, 88, 89, 90, 91, 92, 93, 94, 95]
     @ [96, 97, 98, 99, 100, 101, 102, 103, 104, 105, 106, 107, 108, 109, 110, 111]
     @ [112, 113, 114, 115, 116, 117, 118, 119, 120, 121, 122, 123, 124, 125, 126, 127]"
  by (simp add: upt_rec)

lemma gf128_mul_eval1:
  "gf128_mul \<lparr>gf_hi = 0x1300000000000000, gf_lo = 0x0000000000000000\<rparr>
     \<lparr>gf_hi = 0x0784fbab1e744995, gf_lo = 0xc37b4f225ed8c989\<rparr> =
     \<lparr>gf_hi = 0x184d856c998bb087, gf_lo = 0xc4e47246861dcb84\<rparr>"
  by (simp add: gf128_mul_def gf128_word_def gf128_of_word_def gf128_mul_bit_def upt128)

lemma gf128_mul_eval2:
  "gf128_mul \<lparr>gf_hi = 0x184d856c998bb087, gf_lo = 0xc4e47246861dcb8c\<rparr>
     \<lparr>gf_hi = 0x0784fbab1e744995, gf_lo = 0xc37b4f225ed8c989\<rparr> =
     \<lparr>gf_hi = 0x84a590d55e2ef52a, gf_lo = 0x642e339a88c03565\<rparr>"
  by (simp add: gf128_mul_def gf128_word_def gf128_of_word_def gf128_mul_bit_def upt128)

lemma gf128_mul_eval3:
  "gf128_mul \<lparr>gf_hi = 0x1100000000000000, gf_lo = 0x0000000000000000\<rparr>
     \<lparr>gf_hi = 0x0784fbab1e744995, gf_lo = 0xc37b4f225ed8c989\<rparr> =
     \<lparr>gf_hi = 0x271b968235f261a1, gf_lo = 0x93e99f7a0f66a8a2\<rparr>"
  by (simp add: gf128_mul_def gf128_word_def gf128_of_word_def gf128_mul_bit_def upt128)

lemma gf128_mul_eval4:
  "gf128_mul \<lparr>gf_hi = 0x271b968235f261a1, gf_lo = 0x93e99f7a0f66a8aa\<rparr>
     \<lparr>gf_hi = 0x0784fbab1e744995, gf_lo = 0xc37b4f225ed8c989\<rparr> =
     \<lparr>gf_hi = 0x84582c513e368c60, gf_lo = 0x3488dd1a9f24b6fa\<rparr>"
  by (simp add: gf128_mul_def gf128_word_def gf128_of_word_def gf128_mul_bit_def upt128)

subsection \<open>Evaluation of GCM and CTR at the example key\<close>

lemma len0: "length key0 = 16" "length iv0 = 12" "1 \<le> length iv0" "length iv0 \<le> 64"
  by (simp_all add: key0_def iv0_def)

lemma zeros16: "replicate 16 (0::byte) = [0, 0, 0, 0, 0, 0, 0, 0, 0, 0, 0, 0, 0, 0, 0, 0]"
  by (simp add: numeral_eq_Suc)

lemma gcm_start_key0: "gcm_start example_primitives key0 iv0 [] 1 = gcm_state0"
  unfolding gcm_start_def gcm_init_def gcm_state0_def
  apply (simp add: zeros16 len0 SM4_KEY_SIZE_def SM4_GCM_MIN_IV_SIZE_def SM4_GCM_MAX_IV_SIZE_def
      SM4_GCM_MAX_TAG_SIZE_def SM4_GCM_DEFAULT_IV_SIZE_def SM4_BLOCK_SIZE_def Let_def
      spec_sm4_set_encrypt_key_def spec_sm4_encrypt_def example_primitives_def
      key_schedule_key0 sm4_key0_zero)
  apply (simp add: zeros16 iv0_def sm4_key0_y0 ctr32_incr_def ctr_incr_def ghash_init_def zero_pad_def
      absorb_short gf128_from_bytes_def GETU64_def GETU32_def)
  done

lemma gcm_crypt_key0:
  "gcm_crypt_whole example_primitives key0 iv0 [] 1 [b] = [b XOR 0x13]"
  unfolding gcm_crypt_whole_def gcm_start_def [symmetric] gcm_start_key0 Let_def
  apply (simp add: gcm_state0_def ctr_whole_xor xor_whole_short spec_sm4_encrypt_def
      example_primitives_def sm4_key0_ctr xor_bytes_def)
  done

lemma gh_final_one_byte:
  "gh_final h 0 (gh_feed h ((\<lparr>gf_hi = 0, gf_lo = 0\<rparr>, []), 0) [b]) =
     gf128_to_bytes (gf128_mul
       (gf128_add
          (gf128_mul \<lparr>gf_hi = push_bit 32 (ucast (push_bit 24 (ucast b :: 32 word))), gf_lo = 0\<rparr> h)
          \<lparr>gf_hi = 0, gf_lo = 8\<rparr>) h)"
  apply (simp add: gh_feed_def gh_final_def absorbing_def absorb_short zero_pad_def)
  apply (simp add: absorb_block [of 16 0] absorb_short ghash_absorb_block_def)
  apply (simp add: gf128_add_def gf128_from_bytes_def GETU64_def GETU32_def PUTU64_def PUTU32_def)
  done

lemma one_le_16: "(1::nat) \<le> 16"
  by simp

lemma tag_key0:
  "gcm_expected_tag example_primitives key0 iv0 [] 1 [0x13] = [0xf8]"
  "gcm_expected_tag example_primitives key0 iv0 [] 1 [0x11] = [0xf8]"
  unfolding gcm_expected_tag_eq [OF len0(1,3,4) order_refl one_le_16] gcm_start_key0
  apply (simp_all add: gcm_state0_def gh_abs_def pending_def gh_final_one_byte)
  apply (simp_all add: gf128_add_def gf128_mul_eval1 gf128_mul_eval2
      gf128_mul_eval3 gf128_mul_eval4 gf128_to_bytes_def PUTU64_def PUTU32_def
      xor_bytes_def)
  done

lemmas key0_eval = tag_key0 gcm_crypt_key0 tag_key0 [unfolded One_nat_def]
  gcm_crypt_key0 [unfolded One_nat_def]

lemma Sm4Gcm_stream_decrypt_short:
  assumes "length key = 16" "1 \<le> length iv" "length iv \<le> 64" "1 \<le> t" "t \<le> 16"
    and "length (concat ds) < nat t"
  shows "Sm4Gcm_stream (modelled P lib) key iv aad t False ds = Inl inner_error"
proof -
  have nt: "1 \<le> nat t" "nat t \<le> 16" using assms by auto
  let ?S = "gcm_start P key iv aad (nat t)"
  note v = gcm_start_valid [OF assms(1-3) nt, of P aad False]
  show ?thesis
    unfolding Sm4Gcm_stream_def constructed_then_def Sm4Gcm_init_modelled [OF assms(1-5)]
    using assms(6)
    by (simp add: Sm4Gcm_run_decrypt [OF v(1) v(5)] v(2) gcm_decrypt_whole_def
        gcm_decrypt_machine_def gcm_decrypt_flush_def)
qed

lemma one_le_t: "(1::int) \<le> 1" "(1::int) \<le> 16" "nat 1 = 1"
  by simp_all



subsection \<open>Partial-block buffering\<close>



subsection \<open>Round trip\<close>



subsection \<open>The GCM tag check\<close>

text \<open>
  Claim C1 as stated: a tag that does not match makes \<^verbatim>\<open>finish()\<close> fail with an
  authentication error that is not the generic inner-engine error, and every flipped bit
  of the ciphertext or the tag makes it fail.  Evaluated with SM4-GCM at the key
  \<^verbatim>\<open>0a 00 \<dots> 00\<close>, the IV of twelve zero bytes, no associated data and a one-byte tag:
  the message \<^verbatim>\<open>00\<close> encrypts to \<^verbatim>\<open>13 f8\<close>.  With the last bit of the tag flipped
  (\<^verbatim>\<open>13 f9\<close>) decryption raises \<^verbatim>\<open>InnerError('libgmssl inner error')\<close>, which is also
  what it raises when no tag byte was supplied and the check cannot run: the module has no
  other exception for the library.  With one bit of the ciphertext flipped
  (\<^verbatim>\<open>11 f8\<close>) the one-byte tag still matches, and decryption returns the plaintext
  \<^verbatim>\<open>02\<close>.
\<close>

theorem gcm_authentication_error_counterexample:
  "Sm4Gcm_stream (modelled example_primitives refusing) key0 iv0 [] 1 True [[0]]
     = Inr [0x13, 0xf8]
   \<and> Sm4Gcm_stream (modelled example_primitives refusing) key0 iv0 [] 1 False [[0x13, 0xf9]]
     = Inl (InnerError ''libgmssl inner error'')
   \<and> Sm4Gcm_stream (modelled example_primitives refusing) key0 iv0 [] 1 False []
     = Inl (InnerError ''libgmssl inner error'')
   \<and> Sm4Gcm_stream (modelled example_primitives refusing) key0 iv0 [] 1 False [[0x11, 0xf8]]
     = Inr [0x02]"
proof (intro conjI)
  note b = len0(1,3,4) one_le_t(1,2)
  show "Sm4Gcm_stream (modelled example_primitives refusing) key0 iv0 [] 1 True [[0]]
          = Inr [0x13, 0xf8]"
    by (simp add: Sm4Gcm_stream_encrypt_modelled [OF b] key0_eval)
  have c1: "concat [[0x13, 0xf9]] = [0x13] @ [0xf9 :: byte]" by simp
  have c2: "concat [[0x11, 0xf8]] = [0x11] @ [0xf8 :: byte]" by simp
  have l: "length [0xf9 :: byte] = nat 1" "length [0xf8 :: byte] = nat 1" by simp_all
  show "Sm4Gcm_stream (modelled example_primitives refusing) key0 iv0 [] 1 False [[0x13, 0xf9]]
          = Inl (InnerError ''libgmssl inner error'')"
    unfolding Sm4Gcm_stream_decrypt_modelled [OF b c1 l(1)] one_le_t(3) tag_key0
    by (simp add: inner_error_def)
  show "Sm4Gcm_stream (modelled example_primitives refusing) key0 iv0 [] 1 False [[0x11, 0xf8]]
          = Inr [0x02]"
    unfolding Sm4Gcm_stream_decrypt_modelled [OF b c2 l(2)] one_le_t(3) tag_key0 gcm_crypt_key0
    by simp
  show "Sm4Gcm_stream (modelled example_primitives refusing) key0 iv0 [] 1 False []
          = Inl (InnerError ''libgmssl inner error'')"
    by (simp add: Sm4Gcm_stream_decrypt_short [OF b] inner_error_def)
qed

text \<open>
  Claim C1 as amended.  With the modelled library, for every \<^verbatim>\<open>Sm4Gcm\<close> object
  constructed in decrypt direction (key of 16 bytes, IV of 1 to 64 bytes, tag length \<open>t\<close>
  from 1 to 16) that has received, in any chunks, a ciphertext \<open>body\<close> followed by \<open>t\<close>
  tag bytes: when the tag bytes do not match the tag recomputed over \<open>body\<close>,
  \<^verbatim>\<open>finish()\<close> fails with \<^verbatim>\<open>InnerError('libgmssl inner error')\<close>, the exception of
  every inner-engine error; when they match, the stream returns the plaintext.  The
  output of encryption ends with the tag recomputed over the ciphertext before it, and
  that tag has \<open>t\<close> bytes: so every flipped bit of the tag makes \<^verbatim>\<open>finish()\<close> fail with
  that exception, and a flipped bit of the ciphertext makes it fail exactly when the
  recomputed tag then differs from the supplied one.
\<close>

theorem gcm_tag_mismatch_raises_inner_error:
  assumes "length key = 16" and "1 \<le> length iv" and "length iv \<le> 64"
    and "1 \<le> t" and "t \<le> 16"
    and "concat cs = body @ tag" and "length tag = nat t"
  shows "(tag \<noteq> gcm_expected_tag P key iv aad (nat t) body \<longrightarrow>
            Sm4Gcm_stream (modelled P lib) key iv aad t False cs
              = Inl (InnerError ''libgmssl inner error''))
       \<and> (tag = gcm_expected_tag P key iv aad (nat t) body \<longrightarrow>
            Sm4Gcm_stream (modelled P lib) key iv aad t False cs
              = Inr (gcm_crypt_whole P key iv aad (nat t) body))
       \<and> Sm4Gcm_stream (modelled P lib) key iv aad t True ms
           = Inr (gcm_crypt_whole P key iv aad (nat t) (concat ms)
                  @ gcm_expected_tag P key iv aad (nat t)
                      (gcm_crypt_whole P key iv aad (nat t) (concat ms)))
       \<and> length (gcm_expected_tag P key iv aad (nat t) body) = nat t
       \<and> length (gcm_crypt_whole P key iv aad (nat t) body) = length body"
proof -
  have nt: "1 \<le> nat t" "nat t \<le> 16" using assms(4,5) by auto
  show ?thesis
    by (simp add: Sm4Gcm_stream_decrypt_modelled [OF assms]
        Sm4Gcm_stream_encrypt_modelled [OF assms(1-5)]
        length_gcm_expected_tag [OF assms(1-3) nt] length_gcm_crypt_whole inner_error_def)
qed

text \<open>The amended claim at the key, IV and tag length above: a wrong tag byte, and the
  right one.\<close>

theorem gcm_tag_mismatch_raises_inner_error_witness:
  "length key0 = 16 \<and> 1 \<le> length iv0 \<and> length iv0 \<le> 64
   \<and> concat [[0x13], [0xf9]] = [0x13] @ [0xf9 :: byte] \<and> length [0xf9 :: byte] = nat 1
   \<and> [0xf9] \<noteq> gcm_expected_tag example_primitives key0 iv0 [] (nat 1) [0x13]
   \<and> Sm4Gcm_stream (modelled example_primitives refusing) key0 iv0 [] 1 False [[0x13], [0xf9]]
       = Inl (InnerError ''libgmssl inner error'')
   \<and> [0xf8] = gcm_expected_tag example_primitives key0 iv0 [] (nat 1) [0x13]
   \<and> Sm4Gcm_stream (modelled example_primitives refusing) key0 iv0 [] 1 False [[0x13], [0xf8]]
       = Inr [0]"
  using gcm_tag_mismatch_raises_inner_error [of key0 iv0 1 "[[0x13], [0xf9]]" "[0x13]" "[0xf9]"
      example_primitives "[]" refusing "[]"]
    gcm_tag_mismatch_raises_inner_error [of key0 iv0 1 "[[0x13], [0xf8]]" "[0x13]" "[0xf8]"
      example_primitives "[]" refusing "[]"]
  by (simp add: len0 key0_eval)

subsection \<open>Evaluation of SM3\<close>


















lemma length_concat_PUTU32_8:
  "length ws = 8 \<Longrightarrow> length (concat (map PUTU32 ws)) = 32"
  by simp


subsection \<open>The SM3 digest\<close>



end
